theory Spec2Isabelle
  imports Complex_Main "HOL-Library.AList" "HOL-Library.Log_Nat"
begin

section \<open>JavaScript values\<close>

text \<open>
  A finite JavaScript \<open>number\<close> is a rational; NaN and the infinities are not modelled.
  A string is a list of UTF-16 code units, each below U+0100: a \<open>char\<close> is the code
  unit of that number, so \<open>CHR 0xA0\<close> is the no-break space. Strings holding a code
  unit from U+0100 on are outside the type.
\<close>

type_synonym number = rat

datatype exn =
    ENOENT
  | IOError string
  | SyntaxError string
  | TypeError string
  | Error string

fun message :: "exn \<Rightarrow> string" where
  "message ENOENT = ''ENOENT: no such file or directory''"
| "message (IOError m) = m"
| "message (SyntaxError m) = m"
| "message (TypeError m) = m"
| "message (Error m) = m"

datatype json =
    JNull
  | JBool bool
  | JNum number
  | JStr string
  | JArr "json list"
  | JObj "(string \<times> json) list"

text \<open>
  The white space and line terminators of ECMAScript, which \<open>String.prototype.trim\<close>
  and \<open>StringToBigInt\<close> strip. Below U+0100 these are the tab, line feed, vertical
  tab, form feed, carriage return, space and no-break space; the others (U+1680,
  U+2000 to U+200A, U+2028, U+2029, U+202F, U+205F, U+3000, U+FEFF) lie above.
\<close>

definition isWhiteSpace :: "char \<Rightarrow> bool" where
  "isWhiteSpace c =
     (c \<in> set [CHR 0x09, CHR 0x0A, CHR 0x0B, CHR 0x0C, CHR 0x0D, CHR 0x20, CHR 0xA0])"

definition trim :: "string \<Rightarrow> string" where
  "trim s = rev (dropWhile isWhiteSpace (rev (dropWhile isWhiteSpace s)))"

subsection \<open>BigInt: parsing and printing\<close>

definition digitOf :: "char \<Rightarrow> nat option" where
  "digitOf c =
     (let n = (of_char c :: nat) in
      if 48 \<le> n \<and> n \<le> 57 then Some (n - 48)
      else if 97 \<le> n \<and> n \<le> 102 then Some (n - 87)
      else if 65 \<le> n \<and> n \<le> 70 then Some (n - 55)
      else None)"

fun parseDigits :: "nat \<Rightarrow> nat \<Rightarrow> string \<Rightarrow> nat option" where
  "parseDigits b acc [] = Some acc"
| "parseDigits b acc (c # cs) =
     (case digitOf c of
        None \<Rightarrow> None
      | Some d \<Rightarrow> if d < b then parseDigits b (acc * b + d) cs else None)"

definition parseNat :: "nat \<Rightarrow> string \<Rightarrow> nat option" where
  "parseNat b s = (if s = [] then None else parseDigits b 0 s)"

text \<open>
  \<open>StringToBigInt\<close> of ECMAScript: surrounding whitespace is dropped, the empty string
  is 0, an unsigned literal may be hexadecimal, octal or binary, a decimal literal may
  carry a sign; anything else is not a BigInt.
\<close>

definition StringToBigInt :: "string \<Rightarrow> int option" where
  "StringToBigInt s =
     (let t = trim s in
      if t = [] then Some 0
      else if take 2 t = ''0x'' \<or> take 2 t = ''0X'' then map_option int (parseNat 16 (drop 2 t))
      else if take 2 t = ''0o'' \<or> take 2 t = ''0O'' then map_option int (parseNat 8 (drop 2 t))
      else if take 2 t = ''0b'' \<or> take 2 t = ''0B'' then map_option int (parseNat 2 (drop 2 t))
      else if hd t = CHR ''-'' then map_option (\<lambda>n. - int n) (parseNat 10 (tl t))
      else if hd t = CHR ''+'' then map_option int (parseNat 10 (tl t))
      else map_option int (parseNat 10 t))"

definition BigInt :: "string \<Rightarrow> exn + int" where
  "BigInt s =
     (case StringToBigInt s of
        None \<Rightarrow> Inl (SyntaxError (''Cannot convert '' @ s @ '' to a BigInt''))
      | Some i \<Rightarrow> Inr i)"

definition digitChar :: "nat \<Rightarrow> char" where
  "digitChar d = char_of (48 + d)"

function natToString :: "nat \<Rightarrow> string" where
  "natToString n =
     (if n < 10 then [digitChar n] else natToString (n div 10) @ [digitChar (n mod 10)])"
  by pat_completeness auto
termination
  by (relation "measure id") auto

declare natToString.simps [simp del]

definition BigInt_toString :: "int \<Rightarrow> string" where
  "BigInt_toString i =
     (if i < 0 then CHR ''-'' # natToString (nat (- i)) else natToString (nat i))"

section \<open>The holdings ledger (StateManager)\<close>

record BotHolding =
  tokenMint :: string
  amountLamports :: string
  solSpentLamports :: string
  buyTxSignature :: string
  monitoredWallet :: string
  timestamp :: number
  tokenSymbol :: string
  tokenDecimals :: number

text \<open>
  The file at \<open>holdingsFilePath\<close>: absent, unreadable, or holding some text. The
  in-memory ledger is a JavaScript \<open>Map\<close>: an association list in insertion order,
  where setting an existing key keeps its position.
\<close>

datatype holdingsFile = NoFile | Unreadable string | Text string

record StateManager =
  holdings :: "(string \<times> BotHolding) list"
  holdingsFile :: holdingsFile

definition holdingToJson :: "BotHolding \<Rightarrow> json" where
  "holdingToJson h = JObj
     [(''tokenMint'', JStr (tokenMint h)),
      (''amountLamports'', JStr (amountLamports h)),
      (''solSpentLamports'', JStr (solSpentLamports h)),
      (''buyTxSignature'', JStr (buyTxSignature h)),
      (''monitoredWallet'', JStr (monitoredWallet h)),
      (''timestamp'', JNum (timestamp h)),
      (''tokenSymbol'', JStr (tokenSymbol h)),
      (''tokenDecimals'', JNum (tokenDecimals h))]"

text \<open>
  The object that \<open>saveHoldings\<close> fills by \<open>holdingsObject[tokenMint] = holding\<close>. An
  assignment to the key \<open>__proto__\<close> sets the prototype and makes no property of the
  object's own. The own properties come in the order of ECMAScript: the keys that are
  array indices (the decimal text of a number below 2^32 - 1) first, by ascending
  number, then the other keys in the order of their creation. The list of a \<open>JObj\<close>
  is in that order throughout.
\<close>

definition arrayIndex :: "string \<Rightarrow> nat option" where
  "arrayIndex k =
     (case parseNat 10 k of
        None \<Rightarrow> None
      | Some n \<Rightarrow> if natToString n = k \<and> n < 4294967295 then Some n else None)"

definition indexOrZero :: "string \<Rightarrow> nat" where
  "indexOrZero k = (case arrayIndex k of None \<Rightarrow> 0 | Some n \<Rightarrow> n)"

definition ownPropertyOrder :: "(string \<times> 'a) list \<Rightarrow> (string \<times> 'a) list" where
  "ownPropertyOrder kvs =
     sort_key (\<lambda>kv. indexOrZero (fst kv)) (filter (\<lambda>kv. arrayIndex (fst kv) \<noteq> None) kvs) @
     filter (\<lambda>kv. arrayIndex (fst kv) = None) kvs"

definition holdingsObject :: "(string \<times> BotHolding) list \<Rightarrow> json" where
  "holdingsObject m =
     JObj (ownPropertyOrder
             (map (\<lambda>(k, h). (k, holdingToJson h))
                (filter (\<lambda>(k, h). k \<noteq> ''__proto__'') m)))"

subsection \<open>Reading a record back\<close>

fun truthy :: "json \<Rightarrow> bool" where
  "truthy JNull = False"
| "truthy (JBool b) = b"
| "truthy (JNum n) = (n \<noteq> 0)"
| "truthy (JStr s) = (s \<noteq> [])"
| "truthy (JArr xs) = True"
| "truthy (JObj kvs) = True"

text \<open>Property access: only an object has the properties of a holding.\<close>

fun getProp :: "json \<Rightarrow> string \<Rightarrow> json option" where
  "getProp (JObj kvs) k = map_of kvs k"
| "getProp j k = None"

fun isString :: "json option \<Rightarrow> bool" where
  "isString (Some (JStr s)) = True"
| "isString j = False"

fun isNumber :: "json option \<Rightarrow> bool" where
  "isNumber (Some (JNum n)) = True"
| "isNumber j = False"

definition validateHolding :: "json \<Rightarrow> bool" where
  "validateHolding holding =
     (truthy holding \<and>
      isString (getProp holding ''tokenMint'') \<and>
      isString (getProp holding ''amountLamports'') \<and>
      isString (getProp holding ''solSpentLamports'') \<and>
      isString (getProp holding ''buyTxSignature'') \<and>
      isString (getProp holding ''monitoredWallet'') \<and>
      isNumber (getProp holding ''timestamp'') \<and>
      isString (getProp holding ''tokenSymbol'') \<and>
      isNumber (getProp holding ''tokenDecimals''))"

fun strOf :: "json option \<Rightarrow> string" where
  "strOf (Some (JStr s)) = s"
| "strOf j = []"

fun numOf :: "json option \<Rightarrow> number" where
  "numOf (Some (JNum n)) = n"
| "numOf j = 0"

text \<open>
  The stored value is the parsed object itself; the ledger keeps its eight fields
  (further properties of the object are not modelled).
\<close>

definition readHolding :: "json \<Rightarrow> BotHolding" where
  "readHolding j =
     \<lparr>tokenMint = strOf (getProp j ''tokenMint''),
      amountLamports = strOf (getProp j ''amountLamports''),
      solSpentLamports = strOf (getProp j ''solSpentLamports''),
      buyTxSignature = strOf (getProp j ''buyTxSignature''),
      monitoredWallet = strOf (getProp j ''monitoredWallet''),
      timestamp = numOf (getProp j ''timestamp''),
      tokenSymbol = strOf (getProp j ''tokenSymbol''),
      tokenDecimals = numOf (getProp j ''tokenDecimals'')\<rparr>"

text \<open>\<open>Object.entries\<close>: a TypeError on null, the indexed elements of an array or string.\<close>

fun indexed :: "nat \<Rightarrow> 'a list \<Rightarrow> (string \<times> 'a) list" where
  "indexed i [] = []"
| "indexed i (x # xs) = (natToString i, x) # indexed (Suc i) xs"

fun Object_entries :: "json \<Rightarrow> exn + (string \<times> json) list" where
  "Object_entries JNull = Inl (TypeError ''Cannot convert undefined or null to object'')"
| "Object_entries (JBool b) = Inr []"
| "Object_entries (JNum n) = Inr []"
| "Object_entries (JStr s) = Inr (indexed 0 (map (\<lambda>c. JStr [c]) s))"
| "Object_entries (JArr xs) = Inr (indexed 0 xs)"
| "Object_entries (JObj kvs) = Inr kvs"

subsection \<open>loadHoldings\<close>

text \<open>
  The loop over the entries: an invalid record is counted and skipped. The second
  component is \<open>invalidCount\<close>.
\<close>

fun loadEntries ::
  "(string \<times> json) list \<Rightarrow> (string \<times> BotHolding) list \<times> nat \<Rightarrow> (string \<times> BotHolding) list \<times> nat"
where
  "loadEntries [] acc = acc"
| "loadEntries ((k, holding) # rest) (loaded, invalidCount) =
     (if \<not> validateHolding holding then loadEntries rest (loaded, invalidCount + 1)
      else loadEntries rest (AList.update k (readHolding holding) loaded, invalidCount))"

text \<open>
  The body of the \<open>try\<close> block, given \<open>JSON.parse\<close>. The result carries the number of
  skipped records that the warning reports.
\<close>

definition loadHoldings_try ::
  "(string \<Rightarrow> exn + json) \<Rightarrow> StateManager \<Rightarrow> exn + StateManager \<times> nat"
where
  "loadHoldings_try JSON_parse st =
     (case holdingsFile st of
        NoFile \<Rightarrow> Inl ENOENT
      | Unreadable m \<Rightarrow> Inl (IOError m)
      | Text fileContent \<Rightarrow>
          if trim fileContent = [] then Inr (st\<lparr>holdings := []\<rparr>, 0)
          else (case JSON_parse fileContent of
                  Inl e \<Rightarrow> Inl e
                | Inr parsedData \<Rightarrow>
                    (case Object_entries parsedData of
                       Inl e \<Rightarrow> Inl e
                     | Inr entries \<Rightarrow>
                         (case loadEntries entries ([], 0) of
                            (loadedHoldings, invalidCount) \<Rightarrow>
                              Inr (st\<lparr>holdings := loadedHoldings\<rparr>, invalidCount)))))"

definition loadHoldings ::
  "(string \<Rightarrow> exn + json) \<Rightarrow> StateManager \<Rightarrow> exn + StateManager \<times> nat"
where
  "loadHoldings JSON_parse st =
     (case loadHoldings_try JSON_parse st of
        Inr r \<Rightarrow> Inr r
      | Inl e \<Rightarrow> Inr (st\<lparr>holdings := []\<rparr>, 0))"

subsection \<open>saveHoldings, getHolding, addOrUpdateHolding, removeHolding\<close>

text \<open>
  \<open>fs.writeFile\<close> either succeeds or throws (\<open>wr = Some e\<close>); \<open>JSON.stringify\<close> is the
  library's.
\<close>

definition saveHoldings ::
  "(json \<Rightarrow> string) \<Rightarrow> exn option \<Rightarrow> StateManager \<Rightarrow> (exn + unit) \<times> StateManager"
where
  "saveHoldings JSON_stringify wr st =
     (case wr of
        Some e \<Rightarrow> (Inl e, st)
      | None \<Rightarrow>
          (Inr (), st\<lparr>holdingsFile := Text (JSON_stringify (holdingsObject (holdings st)))\<rparr>))"

definition getHolding :: "StateManager \<Rightarrow> string \<Rightarrow> BotHolding option" where
  "getHolding st mint = map_of (holdings st) mint"


text \<open>The expression \<open>(BigInt(x) + BigInt(y)).toString()\<close>.\<close>

definition bigIntSum :: "string \<Rightarrow> string \<Rightarrow> exn + string" where
  "bigIntSum x y =
     (case BigInt x of
        Inl e \<Rightarrow> Inl e
      | Inr a \<Rightarrow> (case BigInt y of Inl e \<Rightarrow> Inl e | Inr b \<Rightarrow> Inr (BigInt_toString (a + b))))"

definition addOrUpdateHolding ::
  "(json \<Rightarrow> string) \<Rightarrow> exn option \<Rightarrow> number \<Rightarrow>
   string \<Rightarrow> string \<Rightarrow> string \<Rightarrow> string \<Rightarrow> string \<Rightarrow> string \<Rightarrow> number \<Rightarrow>
   StateManager \<Rightarrow> (exn + unit) \<times> StateManager"
where
  "addOrUpdateHolding JSON_stringify wr now
     mint amountBoughtLamports solSpent buyTx wallet symbol decimals st =
     (case map_of (holdings st) mint of
        Some existingHolding \<Rightarrow>
          (case bigIntSum (amountLamports existingHolding) amountBoughtLamports of
             Inl e \<Rightarrow> (Inl e, st)
           | Inr newTotalAmount \<Rightarrow>
               (case bigIntSum (solSpentLamports existingHolding) solSpent of
                  Inl e \<Rightarrow> (Inl e, st)
                | Inr newTotalSolSpent \<Rightarrow>
                    saveHoldings JSON_stringify wr
                      (st\<lparr>holdings :=
                           AList.update mint
                             (existingHolding
                                \<lparr>amountLamports := newTotalAmount,
                                 solSpentLamports := newTotalSolSpent,
                                 buyTxSignature := buyTx,
                                 monitoredWallet := wallet,
                                 timestamp := now\<rparr>)
                             (holdings st)\<rparr>)))
      | None \<Rightarrow>
          saveHoldings JSON_stringify wr
            (st\<lparr>holdings :=
                 AList.update mint
                   \<lparr>tokenMint = mint,
                    amountLamports = amountBoughtLamports,
                    solSpentLamports = solSpent,
                    buyTxSignature = buyTx,
                    monitoredWallet = wallet,
                    timestamp = now,
                    tokenSymbol = symbol,
                    tokenDecimals = decimals\<rparr>
                   (holdings st)\<rparr>))"

definition removeHolding ::
  "(json \<Rightarrow> string) \<Rightarrow> exn option \<Rightarrow> string \<Rightarrow> StateManager \<Rightarrow> (exn + unit) \<times> StateManager"
where
  "removeHolding JSON_stringify wr mint st =
     (if map_of (holdings st) mint \<noteq> None
      then saveHoldings JSON_stringify wr (st\<lparr>holdings := AList.delete mint (holdings st)\<rparr>)
      else (Inr (), st))"

subsection \<open>A sample ledger\<close>

definition sampleHolding :: BotHolding where
  "sampleHolding =
     \<lparr>tokenMint = ''MintA'', amountLamports = ''1000'', solSpentLamports = ''500'',
      buyTxSignature = ''sig1'', monitoredWallet = ''walletA'', timestamp = 1,
      tokenSymbol = ''MintA'', tokenDecimals = 6\<rparr>"

definition sampleLedger :: StateManager where
  "sampleLedger = \<lparr>holdings = [(''MintA'', sampleHolding)], holdingsFile = NoFile\<rparr>"




section \<open>The transaction analyzer (TransactionAnalyzer)\<close>

definition DEX_PROGRAM_IDS :: "string list" where
  "DEX_PROGRAM_IDS =
     [''JUP6LkbZbjS1jKKwapdHNy74zcZ3tLUZoi5QNyVTaV4'',
      ''whirLbMiicVdio4qvUfM5KAg6Ct8VwpYzGff3uctyCc'',
      ''PhoeNiXZ8ByJGLkxNfZRnkUfjvmuYqLR89jjFHGqdXY'',
      ''5Q544fKrFoe6tsEbD7S8EmxGTJYAKtTVhAW5Q5pge4j1'',
      ''675kPX9MHTjS2zt1qfr1NYHuzeLXfQM9H24wFSUt1Mp8'',
      ''CAMMCzo5YL8w4VFF8KVHrK22GGUsp5VTaW7grrKgrWqK'',
      ''LBUZKhRxPF3XUpBCjp4YzTKgLccjZhTSDM9YuVaPwxo'',
      ''Eo7WjKq67rjJQSZxS6z3YkapzY3eMj6Xy8X5EQVn5UaB'',
      ''675kPX9MHTjS2zt1qfr1NYHuzeLXfQM9H24wFSUt1Mp8'',
      ''pAMMBay6oceH9fJKBRHGP5D4bD4sWpmSwMn52FMfXEA'',
      ''SoLFiHG9TfgtdUXUjWAxi3LtvYuFyDLVhBWxdMZxyCe'',
      ''opnb2LAfJYbRMAHHvqjCwQxanZn7ReEHp1k81EohpZb'',
      ''6EF8rrecthR5Dkzon8Nwu78hRvfCKubJ14M5uBEwF6P'',
      ''obriQD1zbpyLz95G5n7nJe6a4DPjpFwa5XYPoNm113y'',
      ''2wT8Yq49kHgDzXuPxZSaeLaH1qbmGXtEyPy64bL7aD3c'',
      ''6m2CDdhRgxpH4WjvdzxAYbGxwdGUz5MziiL5jek2kBma'',
      ''CPMMoo8L3F4NbTegBCKVNunggL7H1ZpdTHKxQB5qKP1C'']"

definition WSOL_MINT :: string where
  "WSOL_MINT = ''So11111111111111111111111111111111111111112''"

record TokenInfo =
  mint :: string
  symbol :: string
  decimals :: number

text \<open>
  \<open>DetectedTradeInternal\<close>: the amounts are \<open>Decimal\<close> values, the wallet is a public
  key, written in base 58. The kind of trade is the string the runtime holds.
  A \<open>Decimal\<close> is modelled as the rational it denotes: the differences, the division
  by 10^9 and the comparisons of the analyzer are exact on balances of at most 2^53
  lamports and UI amounts of at most 17 significant digits, which decimal.js holds
  within its 20 significant digits.
\<close>

record DetectedTradeInternal =
  trade_type :: string
  trade_tokenInfo :: TokenInfo
  trade_tokenMint :: string
  trade_currencyMint :: string
  trade_currencySymbol :: string
  trade_tokenAmount :: rat
  trade_currencyAmount :: rat
  trade_originalTxSignature :: string
  trade_monitoredWallet :: string

text \<open>
  A token balance record: \<open>owner\<close> is optional, \<open>uiTokenAmount.uiAmount\<close> is a number
  or null. A parsed transaction: each part that the code tests for presence is optional;
  an instruction is its program id.
\<close>

record TokenBalance =
  tb_owner :: "string option"
  tb_mint :: string
  tb_uiAmount :: "number option"

record TxMeta =
  preBalances :: "nat list option"
  postBalances :: "nat list option"
  preTokenBalances :: "TokenBalance list option"
  postTokenBalances :: "TokenBalance list option"
  innerInstructions :: "string list list option"

record ParsedTransaction =
  signatures :: "string list"
  accountKeys :: "string list option"
  instructions :: "string list option"
  meta :: "TxMeta option"

record TransactionAnalyzer =
  tokenCache :: "(string \<times> TokenInfo) list"

definition isDexInteraction :: "ParsedTransaction option \<Rightarrow> bool" where
  "isDexInteraction transaction =
     (case transaction of
        None \<Rightarrow> False
      | Some tx \<Rightarrow>
          (case meta tx of
             None \<Rightarrow> False
           | Some m \<Rightarrow>
               (case instructions tx of
                  None \<Rightarrow> False
                | Some ins \<Rightarrow>
                    if list_ex (\<lambda>programId. programId \<in> set DEX_PROGRAM_IDS) ins then True
                    else (case innerInstructions m of
                            None \<Rightarrow> False
                          | Some sets \<Rightarrow>
                              list_ex (list_ex (\<lambda>programId. programId \<in> set DEX_PROGRAM_IDS)) sets))))"

text \<open>
  \<open>getTokenInfo\<close> is asynchronous: it tests the cache, and on a miss awaits the
  lookup (building the public key and calling \<open>getMint\<close> over the connection, which
  gives the decimals or throws) before it writes the cache and returns. Other work,
  further calls of \<open>getTokenInfo\<close> among it, runs during the wait. \<open>cacheLookup\<close> is the
  part before the wait and \<open>afterLookup\<close> the part after it, given the outcome of the
  lookup; \<open>getTokenInfo\<close> is a call that runs with nothing in between.
\<close>

definition cacheLookup :: "string \<Rightarrow> TransactionAnalyzer \<Rightarrow> TokenInfo option" where
  "cacheLookup mintAddress an = map_of (tokenCache an) mintAddress"

definition afterLookup ::
  "string \<Rightarrow> exn + number \<Rightarrow> TransactionAnalyzer \<Rightarrow> TokenInfo \<times> TransactionAnalyzer"
where
  "afterLookup mintAddress outcome an =
     (case outcome of
        Inr d \<Rightarrow>
          (\<lparr>mint = mintAddress, symbol = take 8 mintAddress, decimals = d\<rparr>,
           an\<lparr>tokenCache :=
                AList.update mintAddress
                  \<lparr>mint = mintAddress, symbol = take 8 mintAddress, decimals = d\<rparr>
                  (tokenCache an)\<rparr>)
      | Inl e \<Rightarrow>
          (\<lparr>mint = mintAddress, symbol = take 8 mintAddress, decimals = 6\<rparr>,
           an\<lparr>tokenCache :=
                AList.update mintAddress
                  \<lparr>mint = mintAddress, symbol = take 8 mintAddress, decimals = 6\<rparr>
                  (tokenCache an)\<rparr>))"

definition getTokenInfo ::
  "(string \<Rightarrow> exn + number) \<Rightarrow> string \<Rightarrow> TransactionAnalyzer \<Rightarrow> TokenInfo \<times> TransactionAnalyzer"
where
  "getTokenInfo getMintDecimals mintAddress an =
     (case cacheLookup mintAddress an of
        Some cached \<Rightarrow> (cached, an)
      | None \<Rightarrow> afterLookup mintAddress (getMintDecimals mintAddress) an)"




definition clearTokenCache :: "TransactionAnalyzer \<Rightarrow> TransactionAnalyzer" where
  "clearTokenCache an = an\<lparr>tokenCache := []\<rparr>"

definition lamportsToSol :: "rat \<Rightarrow> rat" where
  "lamportsToSol lamports = lamports / 1000000000"

fun findIndex :: "('a \<Rightarrow> bool) \<Rightarrow> 'a list \<Rightarrow> nat option" where
  "findIndex P [] = None"
| "findIndex P (x # xs) =
     (if P x then Some 0 else map_option Suc (findIndex P xs))"

text \<open>\<open>new Decimal(balances[i])\<close>: a DecimalError when the index is out of range.\<close>

definition balanceAt :: "nat list \<Rightarrow> nat \<Rightarrow> exn + rat" where
  "balanceAt balances i =
     (if i < length balances then Inr (of_nat (balances ! i))
      else Inl (Error ''[DecimalError] Invalid argument: undefined''))"

definition createBalanceMap :: "string \<Rightarrow> TokenBalance list \<Rightarrow> (string \<times> TokenBalance) list" where
  "createBalanceMap monitoredWalletAddress balances =
     fold (\<lambda>b m. if tb_owner b = Some monitoredWalletAddress \<and> tb_uiAmount b \<noteq> None
                  then AList.update (tb_mint b) b m else m)
          balances []"

text \<open>\<open>new Decimal(balance?.uiTokenAmount.uiAmount ?? 0)\<close>\<close>

definition uiAmountOf :: "(string \<times> TokenBalance) list \<Rightarrow> string \<Rightarrow> rat" where
  "uiAmountOf m k =
     (case map_of m k of
        None \<Rightarrow> 0
      | Some b \<Rightarrow> (case tb_uiAmount b of None \<Rightarrow> 0 | Some u \<Rightarrow> u))"

definition solThreshold :: rat where
  "solThreshold = 1 / 100000"

definition tokenThreshold :: rat where
  "tokenThreshold = 1 / 1000000"

text \<open>The members of \<open>new Set([...a, ...b])\<close> in insertion order.\<close>

definition allMintsOf :: "string list \<Rightarrow> string list \<Rightarrow> string list" where
  "allMintsOf a b = rev (remdups (rev (a @ b)))"

definition tokenChangeOf ::
  "(string \<times> TokenBalance) list \<Rightarrow> (string \<times> TokenBalance) list \<Rightarrow> string \<Rightarrow> rat"
where
  "tokenChangeOf pre post m = uiAmountOf post m - uiAmountOf pre m"

definition isBuy :: "rat \<Rightarrow> rat \<Rightarrow> bool" where
  "isBuy tokenChange solChangeToUse = (tokenChange > 0 \<and> solChangeToUse < - solThreshold)"

definition isSell :: "rat \<Rightarrow> rat \<Rightarrow> bool" where
  "isSell tokenChange solChangeToUse = (tokenChange < 0 \<and> solChangeToUse > solThreshold)"

text \<open>The loop over \<open>allMints\<close>.\<close>

fun scanMints ::
  "(string \<Rightarrow> exn + number) \<Rightarrow> (string \<times> TokenBalance) list \<Rightarrow> (string \<times> TokenBalance) list \<Rightarrow>
   rat \<Rightarrow> string \<Rightarrow> string \<Rightarrow> string \<Rightarrow> string list \<Rightarrow> TransactionAnalyzer \<Rightarrow>
   DetectedTradeInternal option \<times> TransactionAnalyzer"
where
  "scanMints g pre post solChangeToUse solSymbolToUse txSignature wallet [] an = (None, an)"
| "scanMints g pre post solChangeToUse solSymbolToUse txSignature wallet (m # rest) an =
     (if m = WSOL_MINT
      then scanMints g pre post solChangeToUse solSymbolToUse txSignature wallet rest an
      else if \<bar>tokenChangeOf pre post m\<bar> > tokenThreshold
      then (if isBuy (tokenChangeOf pre post m) solChangeToUse \<or>
               isSell (tokenChangeOf pre post m) solChangeToUse
            then (Some \<lparr>trade_type =
                           (if isBuy (tokenChangeOf pre post m) solChangeToUse
                            then ''buy'' else ''sell''),
                         trade_tokenInfo = fst (getTokenInfo g m an),
                         trade_tokenMint = m,
                         trade_currencyMint = WSOL_MINT,
                         trade_currencySymbol = solSymbolToUse,
                         trade_tokenAmount = \<bar>tokenChangeOf pre post m\<bar>,
                         trade_currencyAmount = \<bar>solChangeToUse\<bar>,
                         trade_originalTxSignature = txSignature,
                         trade_monitoredWallet = wallet\<rparr>,
                  snd (getTokenInfo g m an))
            else scanMints g pre post solChangeToUse solSymbolToUse txSignature wallet rest
                   (snd (getTokenInfo g m an)))
      else scanMints g pre post solChangeToUse solSymbolToUse txSignature wallet rest an)"

text \<open>The native change: 0 when the wallet is not among the account keys.\<close>

definition nativeSolChangeOf :: "string list \<Rightarrow> nat list \<Rightarrow> nat list \<Rightarrow> string \<Rightarrow> exn + rat" where
  "nativeSolChangeOf keys preB postB wallet =
     (case findIndex (\<lambda>key. key = wallet) keys of
        None \<Rightarrow> Inr 0
      | Some walletAccountIndex \<Rightarrow>
          (case balanceAt preB walletAccountIndex of
             Inl e \<Rightarrow> Inl e
           | Inr preBalance \<Rightarrow>
               (case balanceAt postB walletAccountIndex of
                  Inl e \<Rightarrow> Inl e
                | Inr postBalance \<Rightarrow> Inr (lamportsToSol (postBalance - preBalance)))))"

definition wsolTokenChangeOf :: "TokenBalance list \<Rightarrow> TokenBalance list \<Rightarrow> string \<Rightarrow> rat" where
  "wsolTokenChangeOf preTB postTB wallet =
     uiAmountOf (createBalanceMap wallet postTB) WSOL_MINT -
     uiAmountOf (createBalanceMap wallet preTB) WSOL_MINT"

definition solChangeToUseOf :: "rat \<Rightarrow> rat \<Rightarrow> rat" where
  "solChangeToUseOf nativeSolChange wsolTokenChange =
     (if \<bar>nativeSolChange\<bar> > solThreshold then nativeSolChange else wsolTokenChange)"

definition solSymbolToUseOf :: "rat \<Rightarrow> string" where
  "solSymbolToUseOf nativeSolChange =
     (if \<bar>nativeSolChange\<bar> > solThreshold then ''SOL'' else ''WSOL'')"

text \<open>
  The presence test at the head of \<open>analyzeTrade\<close>: the four balance arrays, the
  account keys and a non-empty first signature, or nothing.
\<close>

definition txParts ::
  "ParsedTransaction option \<Rightarrow>
   (TokenBalance list \<times> TokenBalance list \<times> nat list \<times> nat list \<times> string list \<times> string) option"
where
  "txParts transaction =
     (case transaction of
        None \<Rightarrow> None
      | Some tx \<Rightarrow>
          (case meta tx of
             None \<Rightarrow> None
           | Some m \<Rightarrow>
               (case (preTokenBalances m, postTokenBalances m, preBalances m, postBalances m,
                      accountKeys tx) of
                  (Some preTB, Some postTB, Some preB, Some postB, Some keys) \<Rightarrow>
                    if signatures tx = [] \<or> hd (signatures tx) = [] then None
                    else Some (preTB, postTB, preB, postB, keys, hd (signatures tx))
                | _ \<Rightarrow> None)))"

definition analyzeTrade ::
  "(string \<Rightarrow> exn + number) \<Rightarrow> ParsedTransaction option \<Rightarrow> string \<Rightarrow> TransactionAnalyzer \<Rightarrow>
   (exn + DetectedTradeInternal option) \<times> TransactionAnalyzer"
where
  "analyzeTrade g transaction wallet an =
     (case txParts transaction of
        None \<Rightarrow> (Inr None, an)
      | Some (preTB, postTB, preB, postB, keys, txSignature) \<Rightarrow>
          (case nativeSolChangeOf keys preB postB wallet of
             Inl e \<Rightarrow> (Inl e, an)
           | Inr nativeSolChange \<Rightarrow>
               if \<bar>solChangeToUseOf nativeSolChange (wsolTokenChangeOf preTB postTB wallet)\<bar>
                    < solThreshold
               then (Inr None, an)
               else (case scanMints g (createBalanceMap wallet preTB)
                            (createBalanceMap wallet postTB)
                            (solChangeToUseOf nativeSolChange
                               (wsolTokenChangeOf preTB postTB wallet))
                            (solSymbolToUseOf nativeSolChange)
                            txSignature wallet
                            (allMintsOf (map fst (createBalanceMap wallet preTB))
                               (map fst (createBalanceMap wallet postTB)))
                            an of
                       (r, an') \<Rightarrow> (Inr r, an'))))"

record TradeAnalysisResult =
  isDexTransaction :: bool
  detectedTrade :: "DetectedTradeInternal option"

definition analyzeTransaction ::
  "(string \<Rightarrow> exn + number) \<Rightarrow> ParsedTransaction option \<Rightarrow> string \<Rightarrow> TransactionAnalyzer \<Rightarrow>
   (exn + TradeAnalysisResult) \<times> TransactionAnalyzer"
where
  "analyzeTransaction g transaction wallet an =
     (if \<not> isDexInteraction transaction
      then (Inr \<lparr>isDexTransaction = False, detectedTrade = None\<rparr>, an)
      else (case analyzeTrade g transaction wallet an of
              (Inl e, an') \<Rightarrow> (Inl e, an')
            | (Inr t, an') \<Rightarrow> (Inr \<lparr>isDexTransaction = True, detectedTrade = t\<rparr>, an')))"

subsection \<open>The classification rule in the words of the specification\<close>

text \<open>
  What a detected trade says: kind, token mint, token amount, currency amount and the
  currency representation used.
\<close>

definition tradeSummary :: "DetectedTradeInternal \<Rightarrow> string \<times> string \<times> rat \<times> rat \<times> string" where
  "tradeSummary t =
     (trade_type t, trade_tokenMint t, trade_tokenAmount t, trade_currencyAmount t,
      trade_currencySymbol t)"

text \<open>
  The rule in the words of the claim, over the native delta, the wrapped-native delta
  and the deltas of the other mints in discovery order: the currency change is the
  native delta when its magnitude exceeds 1e-5 and the wrapped one otherwise; there is
  no trade when the chosen change is below 1e-5; otherwise the first mint whose delta
  exceeds 1e-6 and whose sign is consistent with a trade is reported (token up and
  currency down is a buy, token down and currency up is a sell).
\<close>

definition classify_spec ::
  "rat \<Rightarrow> rat \<Rightarrow> (string \<times> rat) list \<Rightarrow> (string \<times> string \<times> rat \<times> rat \<times> string) option"
where
  "classify_spec native wrapped deltas =
     (let chosen = (if \<bar>native\<bar> > 1 / 100000 then native else wrapped);
          used = (if \<bar>native\<bar> > 1 / 100000 then ''SOL'' else ''WSOL'')
      in if \<bar>chosen\<bar> < 1 / 100000 then None
         else (case find (\<lambda>(m, d). \<bar>d\<bar> > 1 / 1000000 \<and>
                              ((d > 0 \<and> chosen < 0) \<or> (d < 0 \<and> chosen > 0))) deltas of
                 None \<Rightarrow> None
               | Some (m, d) \<Rightarrow>
                   Some (if d > 0 then ''buy'' else ''sell'', m, \<bar>d\<bar>, \<bar>chosen\<bar>, used)))"

text \<open>The deltas of the mints other than the wrapped-native one, in discovery order.\<close>

definition otherDeltas :: "TokenBalance list \<Rightarrow> TokenBalance list \<Rightarrow> string \<Rightarrow> (string \<times> rat) list" where
  "otherDeltas preTB postTB wallet =
     map (\<lambda>m. (m, tokenChangeOf (createBalanceMap wallet preTB)
                      (createBalanceMap wallet postTB) m))
       (filter (\<lambda>m. m \<noteq> WSOL_MINT)
          (allMintsOf (map fst (createBalanceMap wallet preTB))
             (map fst (createBalanceMap wallet postTB))))"

subsection \<open>Synthetic swaps\<close>

text \<open>
  A wallet (a well-formed public key) whose wrapped-native balance drops by 1 while its
  balance of MintX rises by 100, in a transaction that touches a known swap program:
  first with the native balance untouched, then with 20000 lamports of fees taken from
  it. In the third the wrapped-native balance drops by exactly 0.00001.
\<close>

definition sampleWallet :: string where
  "sampleWallet = ''whirLbMiicVdio4qvUfM5KAg6Ct8VwpYzGff3uctyCc''"

definition swapWith :: "nat \<Rightarrow> rat \<Rightarrow> ParsedTransaction" where
  "swapWith nativeAfter wsolAfter =
     \<lparr>signatures = [''5igSample''],
      accountKeys = Some [''JUP6LkbZbjS1jKKwapdHNy74zcZ3tLUZoi5QNyVTaV4'', sampleWallet],
      instructions = Some [''JUP6LkbZbjS1jKKwapdHNy74zcZ3tLUZoi5QNyVTaV4''],
      meta = Some
        \<lparr>preBalances = Some [1, 2000000000],
         postBalances = Some [1, nativeAfter],
         preTokenBalances = Some
           [\<lparr>tb_owner = Some sampleWallet, tb_mint = WSOL_MINT, tb_uiAmount = Some 3\<rparr>],
         postTokenBalances = Some
           [\<lparr>tb_owner = Some sampleWallet, tb_mint = WSOL_MINT, tb_uiAmount = Some wsolAfter\<rparr>,
            \<lparr>tb_owner = Some sampleWallet, tb_mint = ''MintX'', tb_uiAmount = Some 100\<rparr>],
         innerInstructions = None\<rparr>\<rparr>"

definition sampleSwap :: ParsedTransaction where
  "sampleSwap = swapWith 2000000000 2"

definition feeSwap :: ParsedTransaction where
  "feeSwap = swapWith 1999980000 2"

definition dustSwap :: ParsedTransaction where
  "dustSwap = swapWith 2000000000 (299999 / 100000)"

section \<open>Binary floating point\<close>

text \<open>
  A JavaScript \<open>number\<close> is an IEEE 754 binary64 value, and \<open>*\<close> and \<open>/\<close> round the exact
  result to the nearest such value, ties to even. \<open>fl\<close> is that rounding, with a
  significand of 53 bits and an unbounded exponent range: overflow and subnormal
  numbers are not modelled.
\<close>

definition twoPow :: "int \<Rightarrow> rat" where
  "twoPow e = (if 0 \<le> e then 2 ^ nat e else 1 / 2 ^ nat (- e))"

text \<open>The exponent \<open>e\<close> with \<open>2^e \<le> |x| < 2^(e+1)\<close>, for \<open>x\<close> other than 0.\<close>

definition binade :: "rat \<Rightarrow> int" where
  "binade x =
     (if 1 \<le> \<bar>x\<bar> then int (floorlog 2 (nat \<lfloor>\<bar>x\<bar>\<rfloor>)) - 1
      else - int (floorlog 2 (nat \<lceil>1 / \<bar>x\<bar>\<rceil> - 1)))"

definition roundHalfEven :: "rat \<Rightarrow> int" where
  "roundHalfEven x =
     (if x - of_int \<lfloor>x\<rfloor> < 1 / 2 then \<lfloor>x\<rfloor>
      else if x - of_int \<lfloor>x\<rfloor> > 1 / 2 then \<lfloor>x\<rfloor> + 1
      else if even \<lfloor>x\<rfloor> then \<lfloor>x\<rfloor> else \<lfloor>x\<rfloor> + 1)"

definition fl :: "rat \<Rightarrow> rat" where
  "fl x =
     (if x = 0 then 0
      else of_int (roundHalfEven (x / twoPow (binade x - 52))) * twoPow (binade x - 52))"

definition fmul :: "number \<Rightarrow> number \<Rightarrow> number" where
  "fmul x y = fl (x * y)"

definition fdiv :: "number \<Rightarrow> number \<Rightarrow> number" where
  "fdiv x y = fl (x / y)"

definition LAMPORTS_PER_SOL :: number where
  "LAMPORTS_PER_SOL = 1000000000"

section \<open>The copy-trading engine (CopyTradingEngine)\<close>

record ConfigData =
  rpcEndpointUrl :: string
  botWalletPrivateKey :: string
  copyTradeAmountSol :: number
  slippagePercentage :: number
  monitoredWalletAddresses :: string
  manageWithSltp :: bool
  takeProfitPercentage :: "number option"
  stopLossPercentage :: "number option"
  priceCheckIntervalSeconds :: "number option"

record CopyTradeResult =
  success :: bool
  tradeType :: string
  res_tokenMint :: string
  res_tokenSymbol :: string
  amount :: string
  signature :: "string option"
  error :: "string option"
  res_timestamp :: number
  originalTxSignature :: string
  res_monitoredWallet :: string

record JupiterQuoteResponse =
  q_inputMint :: string
  q_inAmount :: string
  q_outputMint :: string
  q_outAmount :: string

record JupiterSwapResponse =
  swapTransaction :: string

datatype 'a httpResponse = FetchThrows string | HttpError nat string | HttpOk 'a

datatype keyFormat = JsonArray | CommaSeparated | Base58

text \<open>
  What the engine reaches outside itself: the decoders of the secret key (giving the
  key pair, named by its public key, or throwing), the token account of a wallet for a
  mint, the two HTTP endpoints of the aggregator, signing, sending and confirming a
  transaction, and the library functions \<open>Number.prototype.toString\<close>, \<open>Math.pow\<close>,
  \<open>JSON.stringify\<close>, \<open>fs.writeFile\<close> and \<open>Date.now\<close>.
\<close>

record chain =
  decodeSecretKey :: "keyFormat \<Rightarrow> string \<Rightarrow> exn + string"
  tokenAccountAmount :: "string \<Rightarrow> string \<Rightarrow> exn + nat"
  fetchQuote :: "string \<Rightarrow> string \<Rightarrow> number \<Rightarrow> number \<Rightarrow> JupiterQuoteResponse httpResponse"
  fetchSwap :: "string \<Rightarrow> JupiterQuoteResponse \<Rightarrow> JupiterSwapResponse httpResponse"
  sendAndConfirm :: "string \<Rightarrow> string \<Rightarrow> exn + string"
  Number_toString :: "number \<Rightarrow> string"
  Math_pow :: "number \<Rightarrow> number \<Rightarrow> number"
  JSON_stringify :: "json \<Rightarrow> string"
  writeFile :: "exn option"
  Date_now :: number

text \<open>The calls made to the outside, in order, and the ledger.\<close>

datatype apiCall =
    QuoteCall string string number number
  | SwapCall string JupiterQuoteResponse
  | BalanceCall string string
  | SendCall string string

record engineWorld =
  ledger :: StateManager
  calls :: "apiCall list"

definition getJupiterQuote ::
  "chain \<Rightarrow> string \<Rightarrow> string \<Rightarrow> number \<Rightarrow> number \<Rightarrow> engineWorld \<Rightarrow>
   JupiterQuoteResponse option \<times> engineWorld"
where
  "getJupiterQuote env inMint outMint amt slippageBps w =
     (case fetchQuote env inMint outMint amt slippageBps of
        HttpOk quoteData \<Rightarrow> Some quoteData
      | FetchThrows m \<Rightarrow> None
      | HttpError status body \<Rightarrow> None,
      w\<lparr>calls := calls w @ [QuoteCall inMint outMint amt slippageBps]\<rparr>)"

definition getJupiterSwap ::
  "chain \<Rightarrow> string \<Rightarrow> JupiterQuoteResponse \<Rightarrow> engineWorld \<Rightarrow>
   JupiterSwapResponse option \<times> engineWorld"
where
  "getJupiterSwap env userPublicKey quoteResponse w =
     (case fetchSwap env userPublicKey quoteResponse of
        HttpOk swapData \<Rightarrow> Some swapData
      | FetchThrows m \<Rightarrow> None
      | HttpError status body \<Rightarrow> None,
      w\<lparr>calls := calls w @ [SwapCall userPublicKey quoteResponse]\<rparr>)"

record validation =
  isValid :: bool
  v_error :: "string option"

definition validateTrade :: "DetectedTradeInternal \<Rightarrow> ConfigData \<Rightarrow> validation" where
  "validateTrade detected config =
     (if trade_type detected \<noteq> ''buy'' \<and> trade_type detected \<noteq> ''sell''
      then \<lparr>isValid = False, v_error = Some ''Invalid trade type''\<rparr>
      else if trade_tokenAmount detected \<le> 0
      then \<lparr>isValid = False, v_error = Some ''Invalid token amount''\<rparr>
      else if trade_currencyAmount detected \<le> 0
      then \<lparr>isValid = False, v_error = Some ''Invalid currency amount''\<rparr>
      else if botWalletPrivateKey config = [] \<or> trim (botWalletPrivateKey config) = []
      then \<lparr>isValid = False, v_error = Some ''Bot wallet private key not configured''\<rparr>
      else if trade_type detected = ''buy'' \<and> copyTradeAmountSol config \<le> 0
      then \<lparr>isValid = False, v_error = Some ''Copy trade amount must be greater than 0''\<rparr>
      else \<lparr>isValid = True, v_error = None\<rparr>)"

definition keyFormatOf :: "string \<Rightarrow> keyFormat" where
  "keyFormatOf privateKey =
     (if take 1 privateKey = ''['' then JsonArray
      else if CHR '','' \<in> set privateKey then CommaSeparated
      else Base58)"

definition loadBotWallet :: "chain \<Rightarrow> string \<Rightarrow> exn + string" where
  "loadBotWallet env privateKey =
     (case decodeSecretKey env (keyFormatOf privateKey) privateKey of
        Inr keypair \<Rightarrow> Inr keypair
      | Inl e \<Rightarrow> Inl (Error (''Failed to load bot wallet: '' @ message e)))"

definition getTokenBalance :: "chain \<Rightarrow> string \<Rightarrow> string \<Rightarrow> engineWorld \<Rightarrow> number \<times> engineWorld" where
  "getTokenBalance env walletPubkey tokenMint' w =
     (case tokenAccountAmount env walletPubkey tokenMint' of
        Inr n \<Rightarrow> fl (of_nat n)
      | Inl e \<Rightarrow> 0,
      w\<lparr>calls := calls w @ [BalanceCall walletPubkey tokenMint']\<rparr>)"

definition executeTransaction ::
  "chain \<Rightarrow> string \<Rightarrow> string \<Rightarrow> engineWorld \<Rightarrow> (exn + string) \<times> engineWorld"
where
  "executeTransaction env base64Transaction signer w =
     (case sendAndConfirm env base64Transaction signer of
        Inr sg \<Rightarrow> Inr sg
      | Inl e \<Rightarrow> Inl (Error (''Transaction execution failed: '' @ message e)),
      w\<lparr>calls := calls w @ [SendCall base64Transaction signer]\<rparr>)"

text \<open>The ledger calls of the engine; a failure is logged and swallowed.\<close>

definition recordBuy ::
  "chain \<Rightarrow> string \<Rightarrow> string \<Rightarrow> string \<Rightarrow> string \<Rightarrow> string \<Rightarrow> string \<Rightarrow> number \<Rightarrow>
   engineWorld \<Rightarrow> engineWorld"
where
  "recordBuy env outputMint outAmount spent sg wallet tsymbol tdecimals w =
     w\<lparr>ledger := snd (addOrUpdateHolding (JSON_stringify env) (writeFile env) (Date_now env)
                        outputMint outAmount spent sg wallet tsymbol tdecimals (ledger w))\<rparr>"

definition recordSell :: "chain \<Rightarrow> string \<Rightarrow> engineWorld \<Rightarrow> engineWorld" where
  "recordSell env inputMint w =
     w\<lparr>ledger := snd (removeHolding (JSON_stringify env) (writeFile env) inputMint (ledger w))\<rparr>"

definition amountInLamportsOf :: "ConfigData \<Rightarrow> int" where
  "amountInLamportsOf config = \<lfloor>fmul (copyTradeAmountSol config) LAMPORTS_PER_SOL\<rfloor>"

definition slippageBpsOf :: "ConfigData \<Rightarrow> int" where
  "slippageBpsOf config = \<lfloor>fmul (slippagePercentage config) 100\<rfloor>"

definition rethrow :: "string \<Rightarrow> exn \<Rightarrow> exn" where
  "rethrow prefix e = Error (prefix @ message e)"

definition executeBuyTrade ::
  "chain \<Rightarrow> DetectedTradeInternal \<Rightarrow> ConfigData \<Rightarrow> string \<Rightarrow> number \<Rightarrow> engineWorld \<Rightarrow>
   (exn + CopyTradeResult) \<times> engineWorld"
where
  "executeBuyTrade env detected config botWallet ts w =
     (case getJupiterQuote env WSOL_MINT (trade_tokenMint detected)
             (of_int (amountInLamportsOf config)) (of_int (slippageBpsOf config)) w of
        (None, w1) \<Rightarrow>
          (Inl (rethrow ''Buy trade execution failed: '' (Error ''Failed to get Jupiter quote'')), w1)
      | (Some quote, w1) \<Rightarrow>
          (case getJupiterSwap env botWallet quote w1 of
             (None, w2) \<Rightarrow>
               (Inl (rethrow ''Buy trade execution failed: ''
                       (Error ''Failed to get Jupiter swap transaction'')), w2)
           | (Some swapResponse, w2) \<Rightarrow>
               (case executeTransaction env (swapTransaction swapResponse) botWallet w2 of
                  (Inl e, w3) \<Rightarrow> (Inl (rethrow ''Buy trade execution failed: '' e), w3)
                | (Inr sg, w3) \<Rightarrow>
                    (Inr \<lparr>success = True,
                          tradeType = ''buy'',
                          res_tokenMint = trade_tokenMint detected,
                          res_tokenSymbol = symbol (trade_tokenInfo detected),
                          amount = Number_toString env (copyTradeAmountSol config),
                          signature = Some sg,
                          error = None,
                          res_timestamp = ts,
                          originalTxSignature = trade_originalTxSignature detected,
                          res_monitoredWallet = trade_monitoredWallet detected\<rparr>,
                     recordBuy env (trade_tokenMint detected) (q_outAmount quote)
                       (Number_toString env (of_int (amountInLamportsOf config))) sg
                       (trade_monitoredWallet detected)
                       (symbol (trade_tokenInfo detected))
                       (decimals (trade_tokenInfo detected)) w3))))"

definition executeSellTrade ::
  "chain \<Rightarrow> DetectedTradeInternal \<Rightarrow> ConfigData \<Rightarrow> string \<Rightarrow> number \<Rightarrow> engineWorld \<Rightarrow>
   (exn + CopyTradeResult) \<times> engineWorld"
where
  "executeSellTrade env detected config botWallet ts w =
     (case getHolding (ledger w) (trade_tokenMint detected) of
        None \<Rightarrow>
          (Inr \<lparr>success = False,
                tradeType = ''sell'',
                res_tokenMint = trade_tokenMint detected,
                res_tokenSymbol = symbol (trade_tokenInfo detected),
                amount = ''0'',
                signature = None,
                error = Some (''No holding found for '' @ symbol (trade_tokenInfo detected) @
                              ''. Cannot sell token we don't own.''),
                res_timestamp = ts,
                originalTxSignature = trade_originalTxSignature detected,
                res_monitoredWallet = trade_monitoredWallet detected\<rparr>, w)
      | Some existingHolding \<Rightarrow>
          (case getTokenBalance env botWallet (trade_tokenMint detected) w of
             (tokenBalanceRaw, w0) \<Rightarrow>
               if tokenBalanceRaw \<le> 0
               then (Inl (rethrow ''Sell trade execution failed: ''
                            (Error (''No '' @ symbol (trade_tokenInfo detected) @
                                    '' balance to sell''))), w0)
               else
          (case getJupiterQuote env (trade_tokenMint detected) WSOL_MINT
                  tokenBalanceRaw (of_int (slippageBpsOf config)) w0 of
             (None, w1) \<Rightarrow>
               (Inl (rethrow ''Sell trade execution failed: ''
                       (Error ''Failed to get Jupiter quote'')), w1)
           | (Some quote, w1) \<Rightarrow>
               (case getJupiterSwap env botWallet quote w1 of
                  (None, w2) \<Rightarrow>
                    (Inl (rethrow ''Sell trade execution failed: ''
                            (Error ''Failed to get Jupiter swap transaction'')), w2)
                | (Some swapResponse, w2) \<Rightarrow>
                    (case executeTransaction env (swapTransaction swapResponse) botWallet w2 of
                       (Inl e, w3) \<Rightarrow> (Inl (rethrow ''Sell trade execution failed: '' e), w3)
                     | (Inr sg, w3) \<Rightarrow>
                         (Inr \<lparr>success = True,
                               tradeType = ''sell'',
                               res_tokenMint = trade_tokenMint detected,
                               res_tokenSymbol = symbol (trade_tokenInfo detected),
                               amount = Number_toString env
                                 (fdiv tokenBalanceRaw
                                    (Math_pow env 10 (decimals (trade_tokenInfo detected)))),
                               signature = Some sg,
                               error = None,
                               res_timestamp = ts,
                               originalTxSignature = trade_originalTxSignature detected,
                               res_monitoredWallet = trade_monitoredWallet detected\<rparr>,
                          recordSell env (trade_tokenMint detected) w3))))))"

definition failedResult :: "DetectedTradeInternal \<Rightarrow> number \<Rightarrow> string option \<Rightarrow> CopyTradeResult" where
  "failedResult detected ts err =
     \<lparr>success = False,
      tradeType = trade_type detected,
      res_tokenMint = trade_tokenMint detected,
      res_tokenSymbol = symbol (trade_tokenInfo detected),
      amount = ''0'',
      signature = None,
      error = err,
      res_timestamp = ts,
      originalTxSignature = trade_originalTxSignature detected,
      res_monitoredWallet = trade_monitoredWallet detected\<rparr>"

text \<open>The body of the \<open>try\<close> block of \<open>processCopyTrade\<close>, then the whole function.\<close>

definition processCopyTrade_try ::
  "chain \<Rightarrow> number \<Rightarrow> DetectedTradeInternal \<Rightarrow> ConfigData \<Rightarrow> engineWorld \<Rightarrow>
   (exn + CopyTradeResult) \<times> engineWorld"
where
  "processCopyTrade_try env ts detected config w =
     (if \<not> isValid (validateTrade detected config)
      then (Inr (failedResult detected ts (v_error (validateTrade detected config))), w)
      else (case loadBotWallet env (botWalletPrivateKey config) of
              Inl e \<Rightarrow> (Inl e, w)
            | Inr botWallet \<Rightarrow>
                if trade_type detected = ''buy''
                then executeBuyTrade env detected config botWallet ts w
                else executeSellTrade env detected config botWallet ts w))"

definition processCopyTrade ::
  "chain \<Rightarrow> number \<Rightarrow> DetectedTradeInternal \<Rightarrow> ConfigData \<Rightarrow> engineWorld \<Rightarrow>
   (exn + CopyTradeResult) \<times> engineWorld"
where
  "processCopyTrade env ts detected config w =
     (case processCopyTrade_try env ts detected config w of
        (Inr r, w') \<Rightarrow> (Inr r, w')
      | (Inl e, w') \<Rightarrow>
          (Inr (failedResult detected ts (Some (''Copy trade failed: '' @ message e))), w'))"

subsection \<open>A sample configuration, trade and environment\<close>

definition sampleConfig :: ConfigData where
  "sampleConfig =
     \<lparr>rpcEndpointUrl = ''https://api.mainnet-beta.solana.com'',
      botWalletPrivateKey = ''[1,2,3]'',
      copyTradeAmountSol = 1 / 2,
      slippagePercentage = 30,
      monitoredWalletAddresses = [],
      manageWithSltp = True,
      takeProfitPercentage = Some 20,
      stopLossPercentage = Some 10,
      priceCheckIntervalSeconds = Some 5\<rparr>"

definition sampleTrade :: "string \<Rightarrow> DetectedTradeInternal" where
  "sampleTrade kind =
     \<lparr>trade_type = kind,
      trade_tokenInfo = \<lparr>mint = ''MintB'', symbol = ''MintB'', decimals = 6\<rparr>,
      trade_tokenMint = ''MintB'',
      trade_currencyMint = WSOL_MINT,
      trade_currencySymbol = ''WSOL'',
      trade_tokenAmount = 100,
      trade_currencyAmount = 1,
      trade_originalTxSignature = ''5igSample'',
      trade_monitoredWallet = sampleWallet\<rparr>"

definition sampleChain :: chain where
  "sampleChain =
     \<lparr>decodeSecretKey = (\<lambda>f k. Inr ''BotPubKey''),
      tokenAccountAmount = (\<lambda>w m. Inr 5),
      fetchQuote = (\<lambda>i out a s. HttpError 500 ''down''),
      fetchSwap = (\<lambda>u q. HttpError 500 ''down''),
      sendAndConfirm = (\<lambda>t s. Inl (Error ''not sent'')),
      Number_toString = (\<lambda>n. ''?''),
      Math_pow = (\<lambda>b e. 1),
      JSON_stringify = (\<lambda>j. ''{}''),
      writeFile = None,
      Date_now = 7\<rparr>"

definition sampleWorld :: engineWorld where
  "sampleWorld = \<lparr>ledger = sampleLedger, calls = []\<rparr>"

section \<open>The wallet monitor (WalletMonitor)\<close>

datatype errorType = ConnectionError | SubscriptionError | ValidationError | UnknownError

record WalletMonitoringError =
  err_type :: errorType
  err_message :: string
  err_walletAddress :: "string option"
  err_timestamp :: number

text \<open>
  The state of the monitor: the connection (named by its endpoint) or null, the
  subscription map in insertion order, the running flag, the wallet list, the analyzer,
  the engine and the configuration, each present or null. \<open>reported\<close> lists the
  errors handed to \<open>handleError\<close>, and \<open>removed\<close> the subscription handles given to
  \<open>removeOnLogsListener\<close>.
\<close>

record WalletMonitor =
  connection :: "string option"
  subscriptionIds :: "(string \<times> nat) list"
  isRunning :: bool
  monitoredWallets :: "string list"
  transactionAnalyzer :: "TransactionAnalyzer option"
  copyTradingEngine :: "string option"
  config :: "ConfigData option"
  reported :: "WalletMonitoringError list"
  removed :: "nat list"

text \<open>
  The RPC side: whether \<open>new PublicKey\<close> accepts an address, whether \<open>new Connection\<close>
  accepts an endpoint, whether \<open>getVersion\<close> answers, what the i-th \<open>onLogs\<close> call of
  a start gives for an address (a handle, or an exception), and whether
  \<open>removeOnLogsListener\<close> throws.
\<close>

record rpc =
  validPublicKey :: "string \<Rightarrow> bool"
  newConnection :: "string \<Rightarrow> exn + string"
  getVersion :: "string \<Rightarrow> exn option"
  onLogs :: "nat \<Rightarrow> string \<Rightarrow> exn + nat"
  removeOnLogsListener :: "nat \<Rightarrow> exn option"

fun splitOn :: "char \<Rightarrow> string \<Rightarrow> string list" where
  "splitOn c [] = [[]]"
| "splitOn c (x # xs) =
     (if x = c then [] # splitOn c xs
      else (case splitOn c xs of
              [] \<Rightarrow> [[x]]
            | w # ws \<Rightarrow> (x # w) # ws))"

definition parseWalletAddresses :: "string \<Rightarrow> string list" where
  "parseWalletAddresses addressesString =
     (if addressesString = [] \<or> trim addressesString = [] then []
      else filter (\<lambda>addr. addr \<noteq> []) (map trim (splitOn CHR '','' addressesString)))"

definition validateWalletAddress :: "rpc \<Rightarrow> string \<Rightarrow> bool" where
  "validateWalletAddress env address = validPublicKey env address"

definition handleError :: "WalletMonitoringError \<Rightarrow> WalletMonitor \<Rightarrow> WalletMonitor" where
  "handleError err st = st\<lparr>reported := reported st @ [err]\<rparr>"

definition subscribeToWallet ::
  "rpc \<Rightarrow> number \<Rightarrow> nat \<Rightarrow> string \<Rightarrow> WalletMonitor \<Rightarrow> nat option \<times> WalletMonitor"
where
  "subscribeToWallet env now i address st =
     (case (if \<not> validateWalletAddress env address
            then Inl (Error (''Invalid wallet address: '' @ address))
            else onLogs env i address) of
        Inr subscriptionId \<Rightarrow> (Some subscriptionId, st)
      | Inl e \<Rightarrow>
          (None,
           handleError
             \<lparr>err_type = SubscriptionError,
              err_message = ''Failed to subscribe to wallet: '' @ message e,
              err_walletAddress = Some address,
              err_timestamp = now\<rparr> st))"

text \<open>\<open>unsubscribeFromWallet\<close>: the body of its \<open>try\<close>, then the function, which logs and drops the exception.\<close>

definition unsubscribeFromWallet_try :: "rpc \<Rightarrow> nat \<Rightarrow> WalletMonitor \<Rightarrow> (exn + unit) \<times> WalletMonitor" where
  "unsubscribeFromWallet_try env subscriptionId st =
     (case removeOnLogsListener env subscriptionId of
        None \<Rightarrow> Inr ()
      | Some e \<Rightarrow> Inl e,
      st\<lparr>removed := removed st @ [subscriptionId]\<rparr>)"

definition unsubscribeFromWallet :: "rpc \<Rightarrow> nat \<Rightarrow> WalletMonitor \<Rightarrow> (exn + unit) \<times> WalletMonitor" where
  "unsubscribeFromWallet env subscriptionId st =
     (case unsubscribeFromWallet_try env subscriptionId st of
        (Inr u, st') \<Rightarrow> (Inr (), st')
      | (Inl e, st') \<Rightarrow> (Inr (), st'))"

text \<open>The loop of \<open>stopMonitoring\<close>: an exception of an iteration would leave the loop.\<close>

fun unsubscribeAll :: "rpc \<Rightarrow> (string \<times> nat) list \<Rightarrow> WalletMonitor \<Rightarrow> (exn + unit) \<times> WalletMonitor" where
  "unsubscribeAll env [] st = (Inr (), st)"
| "unsubscribeAll env ((address, subscriptionId) # rest) st =
     (case unsubscribeFromWallet env subscriptionId st of
        (Inl e, st') \<Rightarrow> (Inl e, st')
      | (Inr u, st') \<Rightarrow> unsubscribeAll env rest st')"

definition stopMonitoring_try :: "rpc \<Rightarrow> WalletMonitor \<Rightarrow> (exn + unit) \<times> WalletMonitor" where
  "stopMonitoring_try env st =
     (case (if connection st \<noteq> None \<and> length (subscriptionIds st) > 0
            then unsubscribeAll env (subscriptionIds st) st
            else (Inr (), st)) of
        (Inl e, st') \<Rightarrow> (Inl e, st')
      | (Inr u, st') \<Rightarrow>
          (Inr (),
           st'\<lparr>subscriptionIds := [],
               monitoredWallets := [],
               connection := None,
               transactionAnalyzer := None,
               copyTradingEngine := None,
               config := None,
               isRunning := False\<rparr>))"

definition stopMonitoring :: "rpc \<Rightarrow> number \<Rightarrow> WalletMonitor \<Rightarrow> (exn + unit) \<times> WalletMonitor" where
  "stopMonitoring env now st =
     (case stopMonitoring_try env st of
        (Inr u, st') \<Rightarrow> (Inr (), st')
      | (Inl e, st') \<Rightarrow>
          (Inr (),
           handleError
             \<lparr>err_type = UnknownError,
              err_message = ''Error stopping monitoring: '' @ message e,
              err_walletAddress = None,
              err_timestamp = now\<rparr> st'))"

text \<open>The loop of \<open>startMonitoring\<close> over the parsed addresses.\<close>

fun subscribeAll :: "rpc \<Rightarrow> number \<Rightarrow> nat \<Rightarrow> string list \<Rightarrow> WalletMonitor \<Rightarrow> WalletMonitor" where
  "subscribeAll env now i [] st = st"
| "subscribeAll env now i (address # rest) st =
     (case subscribeToWallet env now i address st of
        (Some subscriptionId, st') \<Rightarrow>
          subscribeAll env now (Suc i) rest
            (st'\<lparr>subscriptionIds := AList.update address subscriptionId (subscriptionIds st')\<rparr>)
      | (None, st') \<Rightarrow> subscribeAll env now (Suc i) rest st')"

definition startMonitoring_try ::
  "rpc \<Rightarrow> number \<Rightarrow> string \<Rightarrow> string \<Rightarrow> ConfigData option \<Rightarrow> WalletMonitor \<Rightarrow>
   (exn + unit) \<times> WalletMonitor"
where
  "startMonitoring_try env now rpcUrl walletAddressesString cfg st =
     (case (if isRunning st then stopMonitoring env now st else (Inr (), st)) of
        (Inl e, st0) \<Rightarrow> (Inl e, st0)
      | (Inr u, st0) \<Rightarrow>
          if length (parseWalletAddresses walletAddressesString) = 0
          then (Inl (Error ''No valid wallet addresses provided''), st0)
          else (case newConnection env rpcUrl of
                  Inl e \<Rightarrow> (Inl e, st0)
                | Inr c \<Rightarrow>
                    (case getVersion env c of
                       Some e \<Rightarrow>
                         (Inl (Error (''Failed to connect to Solana RPC: '' @ message e)),
                          st0\<lparr>connection := Some c\<rparr>)
                     | None \<Rightarrow>
                         (case subscribeAll env now 0 (parseWalletAddresses walletAddressesString)
                                 ((case cfg of
                                     None \<Rightarrow>
                                       st0\<lparr>connection := Some c,
                                           transactionAnalyzer := Some \<lparr>tokenCache = []\<rparr>\<rparr>
                                   | Some cf \<Rightarrow>
                                       st0\<lparr>connection := Some c,
                                           transactionAnalyzer := Some \<lparr>tokenCache = []\<rparr>,
                                           config := Some cf,
                                           copyTradingEngine := Some c\<rparr>)
                                  \<lparr>monitoredWallets := parseWalletAddresses walletAddressesString,
                                   subscriptionIds := []\<rparr>) of
                            st1 \<Rightarrow>
                              if length (subscriptionIds st1) = 0
                              then (Inl (Error ''Failed to subscribe to any wallets''), st1)
                              else (Inr (), st1\<lparr>isRunning := True\<rparr>)))))"

definition startMonitoring ::
  "rpc \<Rightarrow> number \<Rightarrow> string \<Rightarrow> string \<Rightarrow> ConfigData option \<Rightarrow> WalletMonitor \<Rightarrow>
   (exn + unit) \<times> WalletMonitor"
where
  "startMonitoring env now rpcUrl walletAddressesString cfg st =
     (case startMonitoring_try env now rpcUrl walletAddressesString cfg st of
        (Inr u, st') \<Rightarrow> (Inr (), st')
      | (Inl e, st') \<Rightarrow>
          (Inl e,
           snd (stopMonitoring env now
                  (handleError
                     \<lparr>err_type = ConnectionError,
                      err_message = ''Failed to start monitoring: '' @ message e,
                      err_walletAddress = None,
                      err_timestamp = now\<rparr> st'))))"

record WalletMonitoringStatus =
  status_isRunning :: bool
  status_monitoredWallets :: "string list"
  status_connectionStatus :: string
  status_subscriptionIds :: "nat list"

definition getStatus :: "WalletMonitor \<Rightarrow> WalletMonitoringStatus" where
  "getStatus st =
     \<lparr>status_isRunning = isRunning st,
      status_monitoredWallets = monitoredWallets st,
      status_connectionStatus = (if connection st \<noteq> None then ''connected'' else ''disconnected''),
      status_subscriptionIds = map snd (subscriptionIds st)\<rparr>"

text \<open>Whether the i-th subscription attempt of a start, for an address, succeeds.\<close>

definition subscribes :: "rpc \<Rightarrow> nat \<Rightarrow> string \<Rightarrow> bool" where
  "subscribes env i address =
     (validPublicKey env address \<and> (case onLogs env i address of Inr h \<Rightarrow> True | Inl e \<Rightarrow> False))"

subsection \<open>A sample monitor\<close>

definition newMonitor :: WalletMonitor where
  "newMonitor =
     \<lparr>connection = None, subscriptionIds = [], isRunning = False, monitoredWallets = [],
      transactionAnalyzer = None, copyTradingEngine = None, config = None,
      reported = [], removed = []\<rparr>"

text \<open>
  A sample endpoint. Of the two entries it is asked about, it takes \<open>sampleWallet\<close>, the
  base-58 form of a 32-byte key, as a public key, and refuses \<open>not-an-address\<close>, which
  has a character outside the base-58 alphabet.
\<close>

definition sampleRpc :: rpc where
  "sampleRpc =
     \<lparr>validPublicKey = (\<lambda>a. a = sampleWallet),
      newConnection = (\<lambda>u. Inr u),
      getVersion = (\<lambda>c. None),
      onLogs = (\<lambda>i a. Inr i),
      removeOnLogsListener = (\<lambda>h. None)\<rparr>"

section \<open>Facts about BigInt strings\<close>




lemma trim_no_break_space:
  "trim [CHR 0xA0] = []"
  "trim (CHR 0xA0 # ''B'') = ''B''"
  "trim (''B'' @ [CHR 0xA0, CHR 0x09]) = ''B''"
  by (simp_all add: trim_def isWhiteSpace_def)












section \<open>Facts about the ledger\<close>





lemma update_keys_present: "k \<in> fst ` set al \<Longrightarrow> map fst (AList.update k v al) = map fst al"
  by (simp add: AList.update_keys)



lemma holdings_saveHoldings: "holdings (snd (saveHoldings js wr st)) = holdings st"
  by (simp add: saveHoldings_def split: option.splits)





lemma update_absent: "map_of al k = None \<Longrightarrow> AList.update k v al = al @ [(k, v)]"
  by (induction al) (auto split: if_splits)

lemma map_of_update_other: "k \<noteq> M \<Longrightarrow> map_of (AList.update M v al) k = map_of al k"
  by (simp add: AList.update_conv')

lemma map_of_mem: "map_of al M = Some h \<Longrightarrow> M \<in> fst ` set al"
  by (metis map_of_eq_None_iff option.distinct(1))

lemma addOrUpdate_sym_irrelevant:
  "map_of (holdings st) M = Some h \<Longrightarrow>
   addOrUpdateHolding js wr now M amt sol tx wal sy dc st =
   addOrUpdateHolding js wr now M amt sol tx wal sy' dc' st"
  by (simp add: addOrUpdateHolding_def)

lemma addOrUpdate_cases:
  assumes "map_of (holdings st) M = Some h"
  shows "snd (addOrUpdateHolding js wr now M amt sol tx wal sy dc st) = st \<or>
         (\<exists>a s. holdings (snd (addOrUpdateHolding js wr now M amt sol tx wal sy dc st)) =
            AList.update M (h\<lparr>amountLamports := a, solSpentLamports := s, buyTxSignature := tx,
               monitoredWallet := wal, timestamp := now\<rparr>) (holdings st))"
proof (cases "bigIntSum (amountLamports h) amt")
  case (Inl e)
  then show ?thesis using assms by (simp add: addOrUpdateHolding_def)
next
  case a: (Inr a)
  show ?thesis
  proof (cases "bigIntSum (solSpentLamports h) sol")
    case (Inl e)
    then show ?thesis using assms a by (simp add: addOrUpdateHolding_def)
  next
    case (Inr s)
    then have "holdings (snd (addOrUpdateHolding js wr now M amt sol tx wal sy dc st)) =
            AList.update M (h\<lparr>amountLamports := a, solSpentLamports := s, buyTxSignature := tx,
               monitoredWallet := wal, timestamp := now\<rparr>) (holdings st)"
      using assms a by (simp add: addOrUpdateHolding_def holdings_saveHoldings)
    then show ?thesis by blast
  qed
qed

text \<open>
  C9. For a mint that already has an entry, \<open>addOrUpdateHolding\<close> leaves every other
  mint's entry and the order of the keys as they were; the entry of the mint differs
  from the old one in at most the amount, the currency spent, the signature, the wallet
  and the timestamp, so the stored mint, symbol and decimals are those of the first buy;
  and the symbol and decimals passed to the call do not influence the outcome.
\<close>

theorem addOrUpdateHolding_frame:
  "map_of (holdings st) M = Some h \<longrightarrow>
     (\<forall>k. k \<noteq> M \<longrightarrow>
        getHolding (snd (addOrUpdateHolding js wr now M amt sol tx wal sy dc st)) k = getHolding st k) \<and>
     map fst (holdings (snd (addOrUpdateHolding js wr now M amt sol tx wal sy dc st))) =
       map fst (holdings st) \<and>
     (\<exists>h'. getHolding (snd (addOrUpdateHolding js wr now M amt sol tx wal sy dc st)) M = Some h' \<and>
        tokenMint h' = tokenMint h \<and> tokenSymbol h' = tokenSymbol h \<and>
        tokenDecimals h' = tokenDecimals h \<and>
        h' = h\<lparr>amountLamports := amountLamports h', solSpentLamports := solSpentLamports h',
                buyTxSignature := buyTxSignature h', monitoredWallet := monitoredWallet h',
                timestamp := timestamp h'\<rparr>) \<and>
     addOrUpdateHolding js wr now M amt sol tx wal sy dc st =
       addOrUpdateHolding js wr now M amt sol tx wal sy' dc' st"
proof
  assume h: "map_of (holdings st) M = Some h"
  let ?r = "addOrUpdateHolding js wr now M amt sol tx wal sy dc st"
  from addOrUpdate_cases [OF h, of js wr now amt sol tx wal sy dc]
  have "(\<forall>k. k \<noteq> M \<longrightarrow> getHolding (snd ?r) k = getHolding st k) \<and>
     map fst (holdings (snd ?r)) = map fst (holdings st) \<and>
     (\<exists>h'. getHolding (snd ?r) M = Some h' \<and>
        tokenMint h' = tokenMint h \<and> tokenSymbol h' = tokenSymbol h \<and>
        tokenDecimals h' = tokenDecimals h \<and>
        h' = h\<lparr>amountLamports := amountLamports h', solSpentLamports := solSpentLamports h',
                buyTxSignature := buyTxSignature h', monitoredWallet := monitoredWallet h',
                timestamp := timestamp h'\<rparr>)"
  proof
    assume "snd ?r = st"
    then show ?thesis using h by (simp add: getHolding_def)
  next
    assume "\<exists>a s. holdings (snd ?r) =
            AList.update M (h\<lparr>amountLamports := a, solSpentLamports := s, buyTxSignature := tx,
               monitoredWallet := wal, timestamp := now\<rparr>) (holdings st)"
    then obtain a s where e: "holdings (snd ?r) =
            AList.update M (h\<lparr>amountLamports := a, solSpentLamports := s, buyTxSignature := tx,
               monitoredWallet := wal, timestamp := now\<rparr>) (holdings st)" by blast
    show ?thesis
      using map_of_mem [OF h]
      by (simp add: getHolding_def e map_of_update_other update_keys_present AList.update_conv')
  qed
  then show "(\<forall>k. k \<noteq> M \<longrightarrow> getHolding (snd ?r) k = getHolding st k) \<and>
     map fst (holdings (snd ?r)) = map fst (holdings st) \<and>
     (\<exists>h'. getHolding (snd ?r) M = Some h' \<and>
        tokenMint h' = tokenMint h \<and> tokenSymbol h' = tokenSymbol h \<and>
        tokenDecimals h' = tokenDecimals h \<and>
        h' = h\<lparr>amountLamports := amountLamports h', solSpentLamports := solSpentLamports h',
                buyTxSignature := buyTxSignature h', monitoredWallet := monitoredWallet h',
                timestamp := timestamp h'\<rparr>) \<and>
     ?r = addOrUpdateHolding js wr now M amt sol tx wal sy' dc' st"
    using addOrUpdate_sym_irrelevant [OF h] by blast
qed



theorem addOrUpdateHolding_frame_witness:
  "map_of (holdings sampleLedger) ''MintA'' = Some sampleHolding \<and>
   (\<exists>h'. getHolding (snd (addOrUpdateHolding (\<lambda>j. ''{}'') None 2 ''MintA'' ''2000'' ''300'' ''sig2''
       ''walletB'' ''other'' 9 sampleLedger)) ''MintA'' = Some h' \<and>
      tokenSymbol h' = ''MintA'' \<and> tokenDecimals h' = 6)"
proof -
  have p: "map_of (holdings sampleLedger) ''MintA'' = Some sampleHolding"
    by (simp add: sampleLedger_def)
  have s: "tokenSymbol sampleHolding = ''MintA''" "tokenDecimals sampleHolding = 6"
    by (simp_all add: sampleHolding_def)
  from addOrUpdateHolding_frame [where st = sampleLedger and M = "''MintA''"
      and h = sampleHolding and amt = "''2000''" and sol = "''300''" and js = "\<lambda>j. ''{}''"
      and wr = None and now = 2 and tx = "''sig2''" and wal = "''walletB''"
      and sy = "''other''" and dc = 9] p s
  show ?thesis by metis
qed

section \<open>Loading the ledger\<close>

lemma loadEntries_distinct:
  "distinct (map fst es) \<Longrightarrow> fst ` set es \<inter> fst ` set m = {} \<Longrightarrow>
   loadEntries es (m, n) =
     (m @ map (\<lambda>(k, j). (k, readHolding j)) (filter (\<lambda>(k, j). validateHolding j) es),
      n + length (filter (\<lambda>(k, j). \<not> validateHolding j) es))"
proof (induction es arbitrary: m n)
  case Nil
  then show ?case by simp
next
  case (Cons p es)
  obtain k j where p: "p = (k, j)" by (cases p)
  have d: "distinct (map fst es)" and kes: "k \<notin> fst ` set es" and km: "k \<notin> fst ` set m"
    and dis: "fst ` set es \<inter> fst ` set m = {}"
    using Cons.prems p by auto
  show ?case
  proof (cases "validateHolding j")
    case False
    then show ?thesis using Cons.IH [OF d dis, of "n + 1"] p by simp
  next
    case True
    have u: "AList.update k (readHolding j) m = m @ [(k, readHolding j)]"
      using km by (intro update_absent) (simp add: map_of_eq_None_iff)
    have "fst ` set es \<inter> fst ` set (m @ [(k, readHolding j)]) = {}"
      using dis kes by auto
    from Cons.IH [OF d this, of n] True p u show ?thesis by simp
  qed
qed

lemma loadHoldings_total: "\<exists>st' n. loadHoldings parse st = Inr (st', n)"
  by (cases "loadHoldings_try parse st") (auto simp: loadHoldings_def)

lemma loadHoldings_object:
  assumes "holdingsFile st = Text c" "trim c \<noteq> []" "parse c = Inr (JObj es)"
    "distinct (map fst es)"
  shows "loadHoldings parse st =
     Inr (st\<lparr>holdings := map (\<lambda>(k, j). (k, readHolding j)) (filter (\<lambda>(k, j). validateHolding j) es)\<rparr>,
          length (filter (\<lambda>(k, j). \<not> validateHolding j) es))"
  using assms loadEntries_distinct [of es "[]" 0]
  by (simp add: loadHoldings_def loadHoldings_try_def)

lemma validate_holdingToJson: "validateHolding (holdingToJson h)"
  by (simp add: validateHolding_def holdingToJson_def)

lemma readHolding_holdingToJson:
  "readHolding (holdingToJson (h :: BotHolding)) = h"
  by (simp add: readHolding_def holdingToJson_def)

text \<open>
  C7. \<open>loadHoldings\<close> always returns normally. A missing file, an unreadable file,
  blank text, text that \<open>JSON.parse\<close> rejects and the value null all give the empty
  ledger. For an object, every record is validated on its own: the ledger holds exactly
  the valid records, in order, and the count is the number of invalid ones; so one valid
  and one invalid record, in either order, give one entry and a count of one.
\<close>

theorem loadHoldings_fail_open:
  "(\<exists>st' n. loadHoldings parse st = Inr (st', n)) \<and>
   (holdingsFile st = NoFile \<longrightarrow> loadHoldings parse st = Inr (st\<lparr>holdings := []\<rparr>, 0)) \<and>
   (\<forall>m. holdingsFile st = Unreadable m \<longrightarrow> loadHoldings parse st = Inr (st\<lparr>holdings := []\<rparr>, 0)) \<and>
   (\<forall>c. holdingsFile st = Text c \<and> trim c = [] \<longrightarrow>
      loadHoldings parse st = Inr (st\<lparr>holdings := []\<rparr>, 0)) \<and>
   (\<forall>c e. holdingsFile st = Text c \<and> parse c = Inl e \<longrightarrow>
      loadHoldings parse st = Inr (st\<lparr>holdings := []\<rparr>, 0)) \<and>
   (\<forall>c. holdingsFile st = Text c \<and> parse c = Inr JNull \<longrightarrow>
      loadHoldings parse st = Inr (st\<lparr>holdings := []\<rparr>, 0)) \<and>
   (\<forall>c es. holdingsFile st = Text c \<and> trim c \<noteq> [] \<and> parse c = Inr (JObj es) \<and>
      distinct (map fst es) \<longrightarrow>
      loadHoldings parse st =
        Inr (st\<lparr>holdings := map (\<lambda>(k, j). (k, readHolding j))
                                 (filter (\<lambda>(k, j). validateHolding j) es)\<rparr>,
             length (filter (\<lambda>(k, j). \<not> validateHolding j) es))) \<and>
   (\<forall>c k1 j1 k2 j2 es. holdingsFile st = Text c \<and> trim c \<noteq> [] \<and> parse c = Inr (JObj es) \<and>
      (es = [(k1, j1), (k2, j2)] \<or> es = [(k2, j2), (k1, j1)]) \<and> k1 \<noteq> k2 \<and>
      validateHolding j1 \<and> \<not> validateHolding j2 \<longrightarrow>
      loadHoldings parse st = Inr (st\<lparr>holdings := [(k1, readHolding j1)]\<rparr>, 1))"
proof (intro conjI allI impI)
  show "\<exists>st' n. loadHoldings parse st = Inr (st', n)" by (rule loadHoldings_total)
next
  assume "holdingsFile st = NoFile"
  then show "loadHoldings parse st = Inr (st\<lparr>holdings := []\<rparr>, 0)"
    by (simp add: loadHoldings_def loadHoldings_try_def)
next
  fix m assume "holdingsFile st = Unreadable m"
  then show "loadHoldings parse st = Inr (st\<lparr>holdings := []\<rparr>, 0)"
    by (simp add: loadHoldings_def loadHoldings_try_def)
next
  fix c assume "holdingsFile st = Text c \<and> trim c = []"
  then show "loadHoldings parse st = Inr (st\<lparr>holdings := []\<rparr>, 0)"
    by (simp add: loadHoldings_def loadHoldings_try_def)
next
  fix c e assume "holdingsFile st = Text c \<and> parse c = Inl e"
  then show "loadHoldings parse st = Inr (st\<lparr>holdings := []\<rparr>, 0)"
    by (simp add: loadHoldings_def loadHoldings_try_def)
next
  fix c assume "holdingsFile st = Text c \<and> parse c = Inr JNull"
  then show "loadHoldings parse st = Inr (st\<lparr>holdings := []\<rparr>, 0)"
    by (simp add: loadHoldings_def loadHoldings_try_def)
next
  fix c es
  assume "holdingsFile st = Text c \<and> trim c \<noteq> [] \<and> parse c = Inr (JObj es) \<and>
      distinct (map fst es)"
  then show "loadHoldings parse st =
        Inr (st\<lparr>holdings := map (\<lambda>(k, j). (k, readHolding j))
                                 (filter (\<lambda>(k, j). validateHolding j) es)\<rparr>,
             length (filter (\<lambda>(k, j). \<not> validateHolding j) es))"
    by (simp add: loadHoldings_object)
next
  fix c k1 j1 k2 j2 es
  assume a: "holdingsFile st = Text c \<and> trim c \<noteq> [] \<and> parse c = Inr (JObj es) \<and>
      (es = [(k1, j1), (k2, j2)] \<or> es = [(k2, j2), (k1, j1)]) \<and> k1 \<noteq> k2 \<and>
      validateHolding j1 \<and> \<not> validateHolding j2"
  then have "distinct (map fst es)" by auto
  with a have "loadHoldings parse st =
     Inr (st\<lparr>holdings := map (\<lambda>(k, j). (k, readHolding j)) (filter (\<lambda>(k, j). validateHolding j) es)\<rparr>,
          length (filter (\<lambda>(k, j). \<not> validateHolding j) es))"
    by (simp add: loadHoldings_object)
  with a show "loadHoldings parse st = Inr (st\<lparr>holdings := [(k1, readHolding j1)]\<rparr>, 1)"
    by auto
qed

lemma trim_sample: "trim ''{..}'' \<noteq> []"
  by code_simp

lemma invalid_sample: "\<not> validateHolding (JObj [(''tokenMint'', JNum 5)])"
  by (simp add: validateHolding_def)

theorem loadHoldings_fail_open_witness:
  "holdingsFile (sampleLedger\<lparr>holdingsFile := Text ''{..}''\<rparr>) = Text ''{..}'' \<and>
   trim ''{..}'' \<noteq> [] \<and>
   validateHolding (holdingToJson sampleHolding) \<and>
   \<not> validateHolding (JObj [(''tokenMint'', JNum 5)]) \<and>
   loadHoldings
     (\<lambda>c. Inr (JObj [(''MintB'', JObj [(''tokenMint'', JNum 5)]), (''MintA'', holdingToJson sampleHolding)]))
     (sampleLedger\<lparr>holdingsFile := Text ''{..}''\<rparr>) =
     Inr (sampleLedger\<lparr>holdingsFile := Text ''{..}'', holdings := [(''MintA'', sampleHolding)]\<rparr>, 1) \<and>
   loadHoldings (\<lambda>c. Inl (SyntaxError ''Unexpected token''))
     (sampleLedger\<lparr>holdingsFile := Text ''{..}''\<rparr>) =
     Inr (sampleLedger\<lparr>holdingsFile := Text ''{..}'', holdings := []\<rparr>, 0) \<and>
   loadHoldings (\<lambda>c. Inr JNull) sampleLedger = Inr (sampleLedger\<lparr>holdings := []\<rparr>, 0)"
proof -
  let ?st = "sampleLedger\<lparr>holdingsFile := Text ''{..}''\<rparr>"
  let ?bad = "JObj [(''tokenMint'', JNum 5)]"
  let ?parse = "\<lambda>c :: string. (Inr (JObj [(''MintB'', ?bad), (''MintA'', holdingToJson sampleHolding)]) :: exn + json)"
  have f: "holdingsFile ?st = Text ''{..}''" by simp
  have n: "holdingsFile sampleLedger = NoFile" by (simp add: sampleLedger_def)
  have 1: "loadHoldings ?parse ?st = Inr (?st\<lparr>holdings := [(''MintA'', readHolding (holdingToJson sampleHolding))]\<rparr>, 1)"
    using loadHoldings_fail_open [of ?parse ?st] f trim_sample invalid_sample
      validate_holdingToJson [of sampleHolding]
    by simp
  have 2: "loadHoldings (\<lambda>c. Inl (SyntaxError ''Unexpected token'')) ?st = Inr (?st\<lparr>holdings := []\<rparr>, 0)"
    using loadHoldings_fail_open [of "\<lambda>c. Inl (SyntaxError ''Unexpected token'')" ?st] f by simp
  have 3: "loadHoldings (\<lambda>c. Inr JNull) sampleLedger = Inr (sampleLedger\<lparr>holdings := []\<rparr>, 0)"
    using loadHoldings_fail_open [of "\<lambda>c. Inr JNull" sampleLedger] n by simp
  show ?thesis
    using 1 2 3 f trim_sample invalid_sample validate_holdingToJson [of sampleHolding]
    by (simp add: readHolding_holdingToJson)
qed

section \<open>What the ledger file holds\<close>






















section \<open>The token cache\<close>










section \<open>Classification\<close>

lemma scanMints_spec:
  "map_option tradeSummary (fst (scanMints g pre post chg sy sg w ms an)) =
     (case find (\<lambda>(m, d). \<bar>d\<bar> > tokenThreshold \<and> (isBuy d chg \<or> isSell d chg))
             (map (\<lambda>m. (m, tokenChangeOf pre post m)) (filter (\<lambda>m. m \<noteq> WSOL_MINT) ms)) of
        None \<Rightarrow> None
      | Some (m, d) \<Rightarrow> Some (if d > 0 then ''buy'' else ''sell'', m, \<bar>d\<bar>, \<bar>chg\<bar>, sy))"
proof (induction ms arbitrary: an)
  case Nil
  then show ?case by simp
next
  case (Cons m ms)
  show ?case
  proof (cases "m = WSOL_MINT")
    case True
    then show ?thesis using Cons.IH [of an] by simp
  next
    case nw: False
    let ?d = "tokenChangeOf pre post m"
    show ?thesis
    proof (cases "\<bar>?d\<bar> > tokenThreshold")
      case False
      then show ?thesis using nw Cons.IH [of an] by simp
    next
      case big: True
      show ?thesis
      proof (cases "isBuy ?d chg \<or> isSell ?d chg")
        case True
        have "isBuy ?d chg \<longleftrightarrow> ?d > 0" using True by (auto simp: isBuy_def isSell_def)
        then show ?thesis using nw big True by (simp add: tradeSummary_def)
      next
        case False
        then show ?thesis
          using nw big Cons.IH [of "snd (getTokenInfo g m an)"] by simp
      qed
    qed
  qed
qed

lemma find_cong_pred: "(\<And>x. x \<in> set xs \<Longrightarrow> P x = Q x) \<Longrightarrow> find P xs = find Q xs"
  by (induction xs) auto

lemma find_never: "(\<And>x. x \<in> set xs \<Longrightarrow> \<not> P x) \<Longrightarrow> find P xs = None"
  by (induction xs) auto

lemma nativeSolChangeOf_eval:
  assumes "\<forall>i. findIndex (\<lambda>key. key = wallet) keys = Some i \<longrightarrow> i < length preB \<and> i < length postB"
  shows "nativeSolChangeOf keys preB postB wallet =
         Inr (case findIndex (\<lambda>key. key = wallet) keys of
                None \<Rightarrow> 0
              | Some i \<Rightarrow> (of_nat (postB ! i) - of_nat (preB ! i)) / 1000000000)"
  using assms
  by (cases "findIndex (\<lambda>key. key = wallet) keys")
     (simp_all add: nativeSolChangeOf_def balanceAt_def lamportsToSol_def)

lemma nativeSolChangeOf_throws:
  assumes "findIndex (\<lambda>key. key = wallet) keys = Some i" "\<not> (i < length preB \<and> i < length postB)"
  shows "\<exists>e. nativeSolChangeOf keys preB postB wallet = Inl e"
  using assms by (auto simp: nativeSolChangeOf_def balanceAt_def)

text \<open>What the code reports, with its own test of the signs.\<close>

lemma analyzeTrade_code_rule:
  assumes "txParts transaction = Some (preTB, postTB, preB, postB, keys, sg)"
    and "nativeSolChangeOf keys preB postB wallet = Inr native"
    and "chosen = (if \<bar>native\<bar> > 1 / 100000 then native
                   else wsolTokenChangeOf preTB postTB wallet)"
  shows "map_sum id (map_option tradeSummary) (fst (analyzeTrade g transaction wallet an)) =
         Inr (if \<bar>chosen\<bar> < 1 / 100000 then None
              else (case find (\<lambda>(m, d). \<bar>d\<bar> > tokenThreshold \<and> (isBuy d chosen \<or> isSell d chosen))
                           (otherDeltas preTB postTB wallet) of
                      None \<Rightarrow> None
                    | Some (m, d) \<Rightarrow>
                        Some (if d > 0 then ''buy'' else ''sell'', m, \<bar>d\<bar>, \<bar>chosen\<bar>,
                              if \<bar>native\<bar> > 1 / 100000 then ''SOL'' else ''WSOL'')))"
proof -
  let ?chg = "solChangeToUseOf native (wsolTokenChangeOf preTB postTB wallet)"
  let ?sy = "solSymbolToUseOf native"
  have c: "?chg = chosen"
    by (simp add: solChangeToUseOf_def solThreshold_def assms(3))
  have s: "?sy = (if \<bar>native\<bar> > 1 / 100000 then ''SOL'' else ''WSOL'')"
    by (simp add: solSymbolToUseOf_def solThreshold_def)
  show ?thesis
  proof (cases "\<bar>chosen\<bar> < 1 / 100000")
    case True
    then have "\<bar>?chg\<bar> < solThreshold" by (simp add: c solThreshold_def)
    then show ?thesis using assms(1,2) True by (simp add: analyzeTrade_def)
  next
    case False
    then have nf: "\<not> \<bar>?chg\<bar> < solThreshold" by (simp add: c solThreshold_def)
    have "map_sum id (map_option tradeSummary) (fst (analyzeTrade g transaction wallet an)) =
      Inr (map_option tradeSummary (fst (scanMints g (createBalanceMap wallet preTB)
             (createBalanceMap wallet postTB) ?chg ?sy sg wallet
             (allMintsOf (map fst (createBalanceMap wallet preTB))
                (map fst (createBalanceMap wallet postTB))) an)))"
      using assms(1,2) nf by (simp add: analyzeTrade_def split: prod.splits)
    also have "\<dots> = Inr (case find (\<lambda>(m, d). \<bar>d\<bar> > tokenThreshold \<and> (isBuy d chosen \<or> isSell d chosen))
                           (otherDeltas preTB postTB wallet) of
                      None \<Rightarrow> None
                    | Some (m, d) \<Rightarrow>
                        Some (if d > 0 then ''buy'' else ''sell'', m, \<bar>d\<bar>, \<bar>chosen\<bar>,
                              if \<bar>native\<bar> > 1 / 100000 then ''SOL'' else ''WSOL''))"
      unfolding scanMints_spec c s otherDeltas_def by (rule refl)
    finally show ?thesis using False by simp
  qed
qed

text \<open>The test of the code against the rule of the claim.\<close>

lemma code_rule_is_spec:
  assumes "chosen = (if \<bar>native\<bar> > 1 / 100000 then native else wrapped)"
  shows "(if \<bar>chosen\<bar> < 1 / 100000 then None
          else (case find (\<lambda>(m, d). \<bar>d\<bar> > tokenThreshold \<and> (isBuy d chosen \<or> isSell d chosen))
                       deltas of
                  None \<Rightarrow> None
                | Some (m :: string, d) \<Rightarrow>
                    Some (if d > 0 then ''buy'' else ''sell'', m, \<bar>d\<bar>, \<bar>chosen\<bar>,
                          if \<bar>native\<bar> > 1 / 100000 then ''SOL'' else ''WSOL''))) =
         (if \<bar>chosen\<bar> = 1 / 100000 then None else classify_spec native wrapped deltas)"
proof (cases "\<bar>chosen\<bar> < 1 / 100000")
  case True
  then show ?thesis using assms by (simp add: classify_spec_def)
next
  case ge: False
  show ?thesis
  proof (cases "\<bar>chosen\<bar> = 1 / 100000")
    case True
    have "\<not> isBuy d chosen \<and> \<not> isSell d chosen" for d
      using True by (auto simp: isBuy_def isSell_def solThreshold_def)
    then have "find (\<lambda>(m :: string, d). \<bar>d\<bar> > tokenThreshold \<and> (isBuy d chosen \<or> isSell d chosen))
                 deltas = None"
      by (intro find_never) auto
    then show ?thesis using True by simp
  next
    case False
    then have gt: "\<bar>chosen\<bar> > 1 / 100000" using ge by simp
    have b: "isBuy d chosen \<longleftrightarrow> d > 0 \<and> chosen < 0" for d
      using gt by (auto simp: isBuy_def solThreshold_def)
    have sl: "isSell d chosen \<longleftrightarrow> d < 0 \<and> chosen > 0" for d
      using gt by (auto simp: isSell_def solThreshold_def)
    have "find (\<lambda>(m :: string, d). \<bar>d\<bar> > tokenThreshold \<and> (isBuy d chosen \<or> isSell d chosen)) deltas
        = find (\<lambda>(m, d). \<bar>d\<bar> > 1 / 1000000 \<and> ((d > 0 \<and> chosen < 0) \<or> (d < 0 \<and> chosen > 0))) deltas"
      by (intro find_cong_pred) (auto simp: b sl tokenThreshold_def)
    then show ?thesis
      using False ge assms
      by (cases "\<bar>native\<bar> > 1 / 100000") (simp_all add: classify_spec_def split: option.splits)
  qed
qed

lemma find_stronger:
  "find P xs = Some x \<Longrightarrow> (\<And>y. Q y \<Longrightarrow> P y) \<Longrightarrow> Q x \<Longrightarrow> find Q xs = Some x"
  by (induction xs) (auto split: if_splits)

lemma classify_spec_buy:
  assumes "\<not> \<bar>native\<bar> > 1 / 100000" "wrapped = - 1"
    and "find (\<lambda>(m, d). \<bar>d\<bar> > 1 / 1000000) deltas = Some (X, 100)"
  shows "classify_spec native wrapped deltas = Some (''buy'', X, 100, 1, ''WSOL'')"
proof -
  have "find (\<lambda>(m, d). \<bar>d\<bar> > 1 / 1000000 \<and>
          ((d > 0 \<and> (- 1 :: rat) < 0) \<or> (d < 0 \<and> (- 1 :: rat) > 0))) deltas
        = Some (X, 100)"
    by (rule find_stronger [OF assms(3)]) auto
  then show ?thesis using assms(1,2) by (simp add: classify_spec_def)
qed

lemma analyzeTransaction_dex:
  "isDexInteraction transaction \<Longrightarrow>
   fst (analyzeTransaction g transaction wallet an) =
     map_sum id (\<lambda>t. \<lparr>isDexTransaction = True, detectedTrade = t\<rparr>)
       (fst (analyzeTrade g transaction wallet an))"
  by (cases "analyzeTrade g transaction wallet an"; cases "fst (analyzeTrade g transaction wallet an)")
     (simp_all add: analyzeTransaction_def)

lemma analyzeTrade_rule:
  assumes "txParts transaction = Some (preTB, postTB, preB, postB, keys, sg)"
    and "native = (case findIndex (\<lambda>key. key = wallet) keys of
                     None \<Rightarrow> 0
                   | Some i \<Rightarrow> (of_nat (postB ! i) - of_nat (preB ! i)) / 1000000000)"
    and "\<forall>i. findIndex (\<lambda>key. key = wallet) keys = Some i \<longrightarrow> i < length preB \<and> i < length postB"
    and "chosen = (if \<bar>native\<bar> > 1 / 100000 then native
                   else wsolTokenChangeOf preTB postTB wallet)"
  shows "map_sum id (map_option tradeSummary) (fst (analyzeTrade g transaction wallet an)) =
         Inr (if \<bar>chosen\<bar> = 1 / 100000 then None
              else classify_spec native (wsolTokenChangeOf preTB postTB wallet)
                     (otherDeltas preTB postTB wallet))"
proof -
  have n: "nativeSolChangeOf keys preB postB wallet = Inr native"
    using nativeSolChangeOf_eval [OF assms(3)] assms(2) by simp
  show ?thesis
    unfolding analyzeTrade_code_rule [OF assms(1) n assms(4)] code_rule_is_spec [OF assms(4)]
    by (rule refl)
qed

section \<open>The synthetic swaps\<close>

lemma swap_parts:
  "txParts (Some (swapWith nativeAfter wsolAfter)) =
     Some ([\<lparr>tb_owner = Some sampleWallet, tb_mint = WSOL_MINT, tb_uiAmount = Some 3\<rparr>],
           [\<lparr>tb_owner = Some sampleWallet, tb_mint = WSOL_MINT, tb_uiAmount = Some wsolAfter\<rparr>,
            \<lparr>tb_owner = Some sampleWallet, tb_mint = ''MintX'', tb_uiAmount = Some 100\<rparr>],
           [1, 2000000000], [1, nativeAfter],
           [''JUP6LkbZbjS1jKKwapdHNy74zcZ3tLUZoi5QNyVTaV4'', sampleWallet], ''5igSample'')"
  by (simp add: txParts_def swapWith_def)

lemma swap_index:
  "findIndex (\<lambda>key. key = sampleWallet)
     [''JUP6LkbZbjS1jKKwapdHNy74zcZ3tLUZoi5QNyVTaV4'', sampleWallet] = Some 1"
  by (simp add: sampleWallet_def)

lemma swap_key: "''JUP6LkbZbjS1jKKwapdHNy74zcZ3tLUZoi5QNyVTaV4'' \<noteq> sampleWallet"
  by (simp add: sampleWallet_def)

lemma swap_wsol:
  "wsolTokenChangeOf
     [\<lparr>tb_owner = Some sampleWallet, tb_mint = WSOL_MINT, tb_uiAmount = Some 3\<rparr>]
     [\<lparr>tb_owner = Some sampleWallet, tb_mint = WSOL_MINT, tb_uiAmount = Some wsolAfter\<rparr>,
      \<lparr>tb_owner = Some sampleWallet, tb_mint = ''MintX'', tb_uiAmount = Some 100\<rparr>]
     sampleWallet = wsolAfter - 3"
  by (simp add: wsolTokenChangeOf_def createBalanceMap_def uiAmountOf_def WSOL_MINT_def)

lemma swap_deltas:
  "otherDeltas
     [\<lparr>tb_owner = Some sampleWallet, tb_mint = WSOL_MINT, tb_uiAmount = Some 3\<rparr>]
     [\<lparr>tb_owner = Some sampleWallet, tb_mint = WSOL_MINT, tb_uiAmount = Some wsolAfter\<rparr>,
      \<lparr>tb_owner = Some sampleWallet, tb_mint = ''MintX'', tb_uiAmount = Some 100\<rparr>]
     sampleWallet = [(''MintX'', 100)]"
  by (simp add: otherDeltas_def createBalanceMap_def uiAmountOf_def WSOL_MINT_def
      allMintsOf_def tokenChangeOf_def)

lemma swap_dex: "isDexInteraction (Some (swapWith nativeAfter wsolAfter))"
  by (simp add: isDexInteraction_def swapWith_def DEX_PROGRAM_IDS_def)

lemma swap_rule:
  "map_sum id (map_option tradeSummary)
     (fst (analyzeTrade g (Some (swapWith nativeAfter wsolAfter)) sampleWallet an)) =
   Inr (if \<bar>if \<bar>(of_nat nativeAfter - 2000000000) / 1000000000 :: rat\<bar> > 1 / 100000
             then (of_nat nativeAfter - 2000000000) / 1000000000 else wsolAfter - 3\<bar> = 1 / 100000
        then None
        else classify_spec ((of_nat nativeAfter - 2000000000) / 1000000000) (wsolAfter - 3)
               [(''MintX'', 100)])"
proof -
  have "map_sum id (map_option tradeSummary)
     (fst (analyzeTrade g (Some (swapWith nativeAfter wsolAfter)) sampleWallet an)) =
    Inr (if \<bar>if \<bar>(of_nat nativeAfter - 2000000000) / 1000000000 :: rat\<bar> > 1 / 100000
             then (of_nat nativeAfter - 2000000000) / 1000000000
             else wsolTokenChangeOf
               [\<lparr>tb_owner = Some sampleWallet, tb_mint = WSOL_MINT, tb_uiAmount = Some 3\<rparr>]
               [\<lparr>tb_owner = Some sampleWallet, tb_mint = WSOL_MINT, tb_uiAmount = Some wsolAfter\<rparr>,
                \<lparr>tb_owner = Some sampleWallet, tb_mint = ''MintX'', tb_uiAmount = Some 100\<rparr>]
               sampleWallet\<bar> = 1 / 100000
        then None
        else classify_spec ((of_nat nativeAfter - 2000000000) / 1000000000)
               (wsolTokenChangeOf
                 [\<lparr>tb_owner = Some sampleWallet, tb_mint = WSOL_MINT, tb_uiAmount = Some 3\<rparr>]
                 [\<lparr>tb_owner = Some sampleWallet, tb_mint = WSOL_MINT, tb_uiAmount = Some wsolAfter\<rparr>,
                  \<lparr>tb_owner = Some sampleWallet, tb_mint = ''MintX'', tb_uiAmount = Some 100\<rparr>]
                 sampleWallet)
               (otherDeltas
                 [\<lparr>tb_owner = Some sampleWallet, tb_mint = WSOL_MINT, tb_uiAmount = Some 3\<rparr>]
                 [\<lparr>tb_owner = Some sampleWallet, tb_mint = WSOL_MINT, tb_uiAmount = Some wsolAfter\<rparr>,
                  \<lparr>tb_owner = Some sampleWallet, tb_mint = ''MintX'', tb_uiAmount = Some 100\<rparr>]
                 sampleWallet))"
    by (rule analyzeTrade_rule [OF swap_parts]) (simp_all add: swap_index swap_key)
  then show ?thesis unfolding swap_wsol swap_deltas .
qed

text \<open>
  C3, as the code has it. For a transaction that carries its balance arrays, account
  keys and signature, and whose balance arrays cover the index of the wallet among the
  account keys, the native delta is the difference of the wallet's lamport balances
  divided by 1e9 (zero when the wallet is not among the keys), and the currency change
  is the native delta when its magnitude exceeds 1e-5 and the wrapped-native delta
  otherwise. What \<open>analyzeTrade\<close> reports is what the rule of the claim gives, except
  when the magnitude of the currency change is exactly 1e-5: then nothing is reported,
  because the code asks the currency change to be beyond 1e-5 in the direction of the
  trade, not merely to have the right sign. In particular, when the native delta does
  not exceed the threshold, the wrapped-native balance drops by 1 and the first mint
  with a delta above 1e-6 is X, rising by 100, the result is a buy of X with token
  amount 100 and currency amount 1, paid in the wrapped currency. For a transaction
  that touches a known swap program, \<open>analyzeTransaction\<close> passes this result on.
\<close>

theorem analyzeTrade_classifies:
  assumes "txParts transaction = Some (preTB, postTB, preB, postB, keys, sg)"
    and "\<forall>i. findIndex (\<lambda>key. key = wallet) keys = Some i \<longrightarrow> i < length preB \<and> i < length postB"
    and "native = (case findIndex (\<lambda>key. key = wallet) keys of
                     None \<Rightarrow> 0
                   | Some i \<Rightarrow> (of_nat (postB ! i) - of_nat (preB ! i)) / 1000000000)"
    and "wrapped = wsolTokenChangeOf preTB postTB wallet"
    and "chosen = (if \<bar>native\<bar> > 1 / 100000 then native else wrapped)"
  shows
    "map_sum id (map_option tradeSummary) (fst (analyzeTrade g transaction wallet an)) =
       Inr (if \<bar>chosen\<bar> = 1 / 100000 then None
            else classify_spec native wrapped (otherDeltas preTB postTB wallet)) \<and>
     (\<bar>native\<bar> \<le> 1 / 100000 \<and> wrapped = - 1 \<and>
      find (\<lambda>(m, d). \<bar>d\<bar> > 1 / 1000000) (otherDeltas preTB postTB wallet) = Some (X, 100) \<longrightarrow>
        map_sum id (map_option tradeSummary) (fst (analyzeTrade g transaction wallet an)) =
          Inr (Some (''buy'', X, 100, 1, ''WSOL''))) \<and>
     (isDexInteraction transaction \<longrightarrow>
        fst (analyzeTransaction g transaction wallet an) =
          map_sum id (\<lambda>t. \<lparr>isDexTransaction = True, detectedTrade = t\<rparr>)
            (fst (analyzeTrade g transaction wallet an)))"
proof -
  have c: "chosen = (if \<bar>native\<bar> > 1 / 100000 then native
                     else wsolTokenChangeOf preTB postTB wallet)"
    using assms(4,5) by simp
  have r: "map_sum id (map_option tradeSummary) (fst (analyzeTrade g transaction wallet an)) =
       Inr (if \<bar>chosen\<bar> = 1 / 100000 then None
            else classify_spec native wrapped (otherDeltas preTB postTB wallet))"
    unfolding assms(4) by (rule analyzeTrade_rule [OF assms(1) assms(3) assms(2) c])
  have p: "map_sum id (map_option tradeSummary) (fst (analyzeTrade g transaction wallet an)) =
          Inr (Some (''buy'', X, 100, 1, ''WSOL''))"
    if h: "\<bar>native\<bar> \<le> 1 / 100000" "wrapped = - 1"
      "find (\<lambda>(m, d). \<bar>d\<bar> > 1 / 1000000) (otherDeltas preTB postTB wallet) = Some (X, 100)"
  proof -
    have n: "\<not> \<bar>native\<bar> > 1 / 100000" using h(1) by simp
    have "chosen = - 1" using assms(5) n h(2) by simp
    then have "\<bar>chosen\<bar> \<noteq> 1 / 100000" by simp
    then show ?thesis using r classify_spec_buy [OF n h(2) h(3)] by simp
  qed
  show ?thesis using r p analyzeTransaction_dex by blast
qed

theorem analyzeTrade_classifies_witness:
  "isDexInteraction (Some sampleSwap) \<and>
   map_sum id (map_option tradeSummary)
     (fst (analyzeTrade (\<lambda>m. Inr 6) (Some sampleSwap) sampleWallet \<lparr>tokenCache = []\<rparr>)) =
     Inr (Some (''buy'', ''MintX'', 100, 1, ''WSOL'')) \<and>
   map_sum id (map_option tradeSummary \<circ> detectedTrade)
     (fst (analyzeTransaction (\<lambda>m. Inr 6) (Some sampleSwap) sampleWallet \<lparr>tokenCache = []\<rparr>)) =
     Inr (Some (''buy'', ''MintX'', 100, 1, ''WSOL''))"
proof -
  let ?pre = "[\<lparr>tb_owner = Some sampleWallet, tb_mint = WSOL_MINT, tb_uiAmount = Some 3\<rparr>]"
  let ?post = "[\<lparr>tb_owner = Some sampleWallet, tb_mint = WSOL_MINT, tb_uiAmount = Some 2\<rparr>,
                \<lparr>tb_owner = Some sampleWallet, tb_mint = ''MintX'', tb_uiAmount = Some 100\<rparr>]"
  let ?keys = "[''JUP6LkbZbjS1jKKwapdHNy74zcZ3tLUZoi5QNyVTaV4'', sampleWallet]"
  have parts: "txParts (Some sampleSwap) =
     Some (?pre, ?post, [1, 2000000000], [1, 2000000000], ?keys, ''5igSample'')"
    unfolding sampleSwap_def by (rule swap_parts)
  have idx: "\<forall>i. findIndex (\<lambda>key. key = sampleWallet) ?keys = Some i \<longrightarrow>
                 i < length [1, 2000000000 :: nat] \<and> i < length [1, 2000000000 :: nat]"
    by (simp add: swap_index)
  have nat: "(0 :: rat) = (case findIndex (\<lambda>key. key = sampleWallet) ?keys of
                     None \<Rightarrow> 0
                   | Some i \<Rightarrow> (of_nat ([1, 2000000000] ! i) - of_nat ([1, 2000000000] ! i))
                                 / 1000000000)"
    by (simp add: swap_index)
  have wr: "(- 1 :: rat) = wsolTokenChangeOf ?pre ?post sampleWallet"
    by (simp add: swap_wsol)
  have ch: "(- 1 :: rat) = (if \<bar>0 :: rat\<bar> > 1 / 100000 then 0 else - 1)"
    by simp
  have h: "\<bar>0 :: rat\<bar> \<le> 1 / 100000 \<and> (- 1 :: rat) = - 1 \<and>
     find (\<lambda>(m, d). \<bar>d\<bar> > 1 / 1000000) (otherDeltas ?pre ?post sampleWallet)
       = Some (''MintX'', 100)"
    by (simp add: swap_deltas)
  have dex: "isDexInteraction (Some sampleSwap)"
    unfolding sampleSwap_def by (rule swap_dex)
  note t = analyzeTrade_classifies [OF parts idx nat wr ch,
      where g = "\<lambda>m. Inr 6" and an = "\<lparr>tokenCache = []\<rparr>" and X = "''MintX''"]
  have a: "map_sum id (map_option tradeSummary)
     (fst (analyzeTrade (\<lambda>m. Inr 6) (Some sampleSwap) sampleWallet \<lparr>tokenCache = []\<rparr>)) =
     Inr (Some (''buy'', ''MintX'', 100, 1, ''WSOL''))"
    using t h by blast
  have b: "fst (analyzeTransaction (\<lambda>m. Inr 6) (Some sampleSwap) sampleWallet \<lparr>tokenCache = []\<rparr>) =
          map_sum id (\<lambda>t. \<lparr>isDexTransaction = True, detectedTrade = t\<rparr>)
            (fst (analyzeTrade (\<lambda>m. Inr 6) (Some sampleSwap) sampleWallet \<lparr>tokenCache = []\<rparr>))"
    using t dex by blast
  have c: "map_sum id (map_option tradeSummary \<circ> detectedTrade)
     (fst (analyzeTransaction (\<lambda>m. Inr 6) (Some sampleSwap) sampleWallet \<lparr>tokenCache = []\<rparr>)) =
     map_sum id (map_option tradeSummary)
     (fst (analyzeTrade (\<lambda>m. Inr 6) (Some sampleSwap) sampleWallet \<lparr>tokenCache = []\<rparr>))"
    unfolding b by (cases "fst (analyzeTrade (\<lambda>m. Inr 6) (Some sampleSwap) sampleWallet \<lparr>tokenCache = []\<rparr>)") simp_all
  show ?thesis using a c dex by simp
qed

text \<open>
  The claim as worded fails twice. With the wrapped-native balance dropping by 1 and
  MintX rising by 100, but 20000 lamports of fees leaving the native balance, the native
  delta of 0.00002 is the currency change: the buy is reported with currency amount
  0.00002 in the native currency, not 1. And when the wrapped-native balance drops by
  exactly 0.00001 (native balance untouched), the chosen change is not below the
  threshold and its sign fits a buy of MintX, which is what the rule of the claim
  gives, yet the code reports nothing.
\<close>

theorem analyzeTrade_classifies_counterexample:
  "isDexInteraction (Some feeSwap) \<and>
   map_sum id (map_option tradeSummary)
     (fst (analyzeTrade (\<lambda>m. Inr 6) (Some feeSwap) sampleWallet \<lparr>tokenCache = []\<rparr>)) =
     Inr (Some (''buy'', ''MintX'', 100, 1 / 50000, ''SOL'')) \<and>
   isDexInteraction (Some dustSwap) \<and>
   map_sum id (map_option tradeSummary)
     (fst (analyzeTrade (\<lambda>m. Inr 6) (Some dustSwap) sampleWallet \<lparr>tokenCache = []\<rparr>)) =
     Inr None \<and>
   classify_spec 0 (299999 / 100000 - 3) [(''MintX'', 100)] =
     Some (''buy'', ''MintX'', 100, 1 / 100000, ''WSOL'')"
proof -
  have f: "map_sum id (map_option tradeSummary)
     (fst (analyzeTrade (\<lambda>m. Inr 6) (Some feeSwap) sampleWallet \<lparr>tokenCache = []\<rparr>)) =
     Inr (Some (''buy'', ''MintX'', 100, 1 / 50000, ''SOL''))"
    unfolding feeSwap_def swap_rule by (simp add: classify_spec_def)
  have d: "map_sum id (map_option tradeSummary)
     (fst (analyzeTrade (\<lambda>m. Inr 6) (Some dustSwap) sampleWallet \<lparr>tokenCache = []\<rparr>)) =
     Inr None"
    unfolding dustSwap_def swap_rule by simp
  have s: "classify_spec 0 (299999 / 100000 - 3) [(''MintX'', 100)] =
     Some (''buy'', ''MintX'', 100, 1 / 100000, ''WSOL'')"
    by (simp add: classify_spec_def)
  show ?thesis
    using f d s swap_dex by (simp add: feeSwap_def dustSwap_def)
qed


section \<open>Rounding to binary64\<close>

lemma twoPow_pos: "0 < twoPow e"
  by (simp add: twoPow_def)

lemma twoPow_le_one: "e \<le> 0 \<Longrightarrow> twoPow e \<le> 1"
  by (simp add: twoPow_def divide_le_eq)

lemma roundHalfEven_near: "\<bar>of_int (roundHalfEven r) - r\<bar> \<le> 1 / 2"
proof -
  have "of_int \<lfloor>r\<rfloor> \<le> r" "r < of_int \<lfloor>r\<rfloor> + 1" by linarith+
  then show ?thesis by (auto simp: roundHalfEven_def)
qed

lemma roundHalfEven_int: "roundHalfEven (of_int k) = k"
  by (simp add: roundHalfEven_def)

lemma binade_le_52:
  assumes "\<bar>x\<bar> < 2 ^ 53"
  shows "binade x \<le> 52"
proof (cases "1 \<le> \<bar>x\<bar>")
  case True
  have "\<lfloor>\<bar>x\<bar>\<rfloor> < 2 ^ 53" using assms by (simp add: floor_less_iff)
  then have "nat \<lfloor>\<bar>x\<bar>\<rfloor> < 2 ^ 53" by (simp add: nat_less_iff)
  then have "floorlog 2 (nat \<lfloor>\<bar>x\<bar>\<rfloor>) \<le> 53" by (intro floorlog_leI) simp_all
  then show ?thesis using True by (simp add: binade_def)
next
  case False
  then show ?thesis by (simp add: binade_def)
qed

lemma fl_near:
  assumes "\<bar>x\<bar> < 2 ^ 53"
  shows "\<bar>fl x - x\<bar> \<le> 1 / 2"
proof (cases "x = 0")
  case True
  then show ?thesis by (simp add: fl_def)
next
  case False
  let ?s = "twoPow (binade x - 52)"
  let ?r = "x / ?s"
  have s: "0 < ?s" "?s \<le> 1" using binade_le_52 [OF assms] by (simp_all add: twoPow_pos twoPow_le_one)
  have x: "x = ?r * ?s" using s by simp
  have "fl x - x = (of_int (roundHalfEven ?r) - ?r) * ?s"
    using False s by (simp add: fl_def algebra_simps)
  then have "\<bar>fl x - x\<bar> = \<bar>of_int (roundHalfEven ?r) - ?r\<bar> * ?s"
    using s by (simp add: abs_mult)
  also have "\<dots> \<le> (1 / 2) * 1"
    using roundHalfEven_near [of ?r] s by (intro mult_mono) simp_all
  finally show ?thesis by simp
qed

lemma floor_near:
  fixes x y :: rat
  assumes "\<bar>y - x\<bar> \<le> 1 / 2"
  shows "\<bar>\<lfloor>y\<rfloor> - \<lfloor>x\<rfloor>\<bar> \<le> 1"
proof -
  have "of_int \<lfloor>x\<rfloor> \<le> x" "x < of_int \<lfloor>x\<rfloor> + 1" "of_int \<lfloor>y\<rfloor> \<le> y" "y < of_int \<lfloor>y\<rfloor> + 1"
    by linarith+
  then have "(of_int \<lfloor>y\<rfloor> :: rat) - of_int \<lfloor>x\<rfloor> < 2" "(of_int \<lfloor>x\<rfloor> :: rat) - of_int \<lfloor>y\<rfloor> < 2"
    using assms by linarith+
  then have "\<lfloor>y\<rfloor> - \<lfloor>x\<rfloor> < 2" "\<lfloor>x\<rfloor> - \<lfloor>y\<rfloor> < 2"
    by (metis of_int_diff of_int_less_iff of_int_numeral)+
  then show ?thesis by linarith
qed

lemma fl_int:
  assumes "\<bar>of_int n :: rat\<bar> < 2 ^ 53"
  shows "fl (of_int n) = of_int n"
proof (cases "n = 0")
  case True
  then show ?thesis by (simp add: fl_def)
next
  case False
  let ?e = "binade (of_int n) - 52"
  have e: "?e \<le> 0" using binade_le_52 [OF assms] by simp
  then have t: "twoPow ?e = 1 / 2 ^ nat (- ?e)"
    by (cases "?e = 0") (simp_all add: twoPow_def)
  have "(of_int n :: rat) / twoPow ?e = of_int (n * 2 ^ nat (- ?e))"
    by (simp add: t)
  then have "roundHalfEven ((of_int n :: rat) / twoPow ?e) = n * 2 ^ nat (- ?e)"
    by (simp only: roundHalfEven_int)
  then show ?thesis using False by (simp add: fl_def t)
qed

lemma binade_ge1:
  "1 \<le> \<bar>x\<bar> \<Longrightarrow> \<lfloor>\<bar>x\<bar>\<rfloor> = n \<Longrightarrow> floorlog 2 (nat n) = b \<Longrightarrow> binade x = int b - 1"
  by (simp add: binade_def)

lemma fl_down:
  "x \<noteq> 0 \<Longrightarrow> binade x = e \<Longrightarrow> \<lfloor>x / twoPow (e - 52)\<rfloor> = k \<Longrightarrow>
   x / twoPow (e - 52) - of_int k < 1 / 2 \<Longrightarrow> fl x = of_int k * twoPow (e - 52)"
  by (simp add: fl_def roundHalfEven_def)

lemma fl_up:
  "x \<noteq> 0 \<Longrightarrow> binade x = e \<Longrightarrow> \<lfloor>x / twoPow (e - 52)\<rfloor> = k \<Longrightarrow>
   x / twoPow (e - 52) - of_int k > 1 / 2 \<Longrightarrow> fl x = of_int (k + 1) * twoPow (e - 52)"
  by (simp add: fl_def roundHalfEven_def)

text \<open>The binary64 value nearest to 0.3, times 100.\<close>

lemma fl_03_100: "fl (5404319552844595 / 18014398509481984 * 100) = 30"
proof -
  let ?x = "5404319552844595 / 18014398509481984 * 100 :: rat"
  have f: "\<lfloor>\<bar>?x\<bar>\<rfloor> = 29" by (rule floor_unique) simp_all
  have b: "binade ?x = 4"
    using binade_ge1 [of ?x 29 5] f by (simp add: compute_floorlog)
  have t: "twoPow (4 - 52) = 1 / 281474976710656" "twoPow (- 48) = 1 / 281474976710656"
    by (simp_all add: twoPow_def)
  have k: "\<lfloor>?x / twoPow (4 - 52)\<rfloor> = 8444249301319679"
    unfolding t(1) by (rule floor_unique) simp_all
  have "fl ?x = of_int (8444249301319679 + 1) * twoPow (4 - 52)"
    by (rule fl_up [OF _ b k]) (simp_all add: t)
  then show ?thesis by (simp add: t)
qed

text \<open>The binary64 value nearest to 0.009, times 10^9.\<close>

lemma fl_0009_1e9: "fl (5188146770730811 / 576460752303423488 * 1000000000) = 9000000"
proof -
  let ?x = "5188146770730811 / 576460752303423488 * 1000000000 :: rat"
  have f: "\<lfloor>\<bar>?x\<bar>\<rfloor> = 8999999" by (rule floor_unique) simp_all
  have b: "binade ?x = 23"
    using binade_ge1 [of ?x 8999999 24] f by (simp add: compute_floorlog)
  have t: "twoPow (23 - 52) = 1 / 536870912" "twoPow (- 29) = 1 / 536870912"
    by (simp_all add: twoPow_def)
  have k: "\<lfloor>?x / twoPow (23 - 52)\<rfloor> = 4831838207999999"
    unfolding t(1) by (rule floor_unique) simp_all
  have "fl ?x = of_int (4831838207999999 + 1) * twoPow (23 - 52)"
    by (rule fl_up [OF _ b k]) (simp_all add: t)
  then show ?thesis by (simp add: t)
qed

text \<open>The binary64 value nearest to 1.15, and its product with 100.\<close>

lemma fl_115: "fl (115 / 100) = 2589569785738035 / 2251799813685248"
proof -
  let ?x = "115 / 100 :: rat"
  have f: "\<lfloor>\<bar>?x\<bar>\<rfloor> = 1" by (rule floor_unique) simp_all
  have b: "binade ?x = 0"
    using binade_ge1 [of ?x 1 1] f by (simp add: compute_floorlog)
  have t: "twoPow (0 - 52) = 1 / 4503599627370496" "twoPow (- 52) = 1 / 4503599627370496"
    by (simp_all add: twoPow_def)
  have k: "\<lfloor>?x / twoPow (0 - 52)\<rfloor> = 5179139571476070"
    unfolding t(1) by (rule floor_unique) simp_all
  have "fl ?x = of_int 5179139571476070 * twoPow (0 - 52)"
    by (rule fl_down [OF _ b k]) (simp_all add: t)
  then show ?thesis by (simp add: t)
qed

lemma fl_115_100:
  "fl (2589569785738035 / 2251799813685248 * 100) = 8092405580431359 / 70368744177664"
proof -
  let ?x = "2589569785738035 / 2251799813685248 * 100 :: rat"
  have f: "\<lfloor>\<bar>?x\<bar>\<rfloor> = 114" by (rule floor_unique) simp_all
  have b: "binade ?x = 6"
    using binade_ge1 [of ?x 114 7] f by (simp add: compute_floorlog)
  have t: "twoPow (6 - 52) = 1 / 70368744177664" "twoPow (- 46) = 1 / 70368744177664"
    by (simp_all add: twoPow_def)
  have k: "\<lfloor>?x / twoPow (6 - 52)\<rfloor> = 8092405580431359"
    unfolding t(1) by (rule floor_unique) simp_all
  have "fl ?x = of_int 8092405580431359 * twoPow (6 - 52)"
    by (rule fl_down [OF _ b k]) (simp_all add: t)
  then show ?thesis by (simp add: t)
qed

lemma floors:
  "\<lfloor>5404319552844595 / 18014398509481984 * 100 :: rat\<rfloor> = 29"
  "\<lfloor>5188146770730811 / 576460752303423488 * 1000000000 :: rat\<rfloor> = 8999999"
  "\<lfloor>8092405580431359 / 70368744177664 :: rat\<rfloor> = 114"
  "\<lfloor>115 / 100 * 100 :: rat\<rfloor> = 115"
  by (rule floor_unique, simp, simp)+

section \<open>The engine's entry point\<close>

lemma executeSellTrade_no_holding:
  "getHolding (ledger w) (trade_tokenMint detected) = None \<Longrightarrow>
   executeSellTrade env detected conf botWallet ts w =
     (Inr \<lparr>success = False,
           tradeType = ''sell'',
           res_tokenMint = trade_tokenMint detected,
           res_tokenSymbol = symbol (trade_tokenInfo detected),
           amount = ''0'',
           signature = None,
           error = Some (''No holding found for '' @ symbol (trade_tokenInfo detected) @
                         ''. Cannot sell token we don't own.''),
           res_timestamp = ts,
           originalTxSignature = trade_originalTxSignature detected,
           res_monitoredWallet = trade_monitoredWallet detected\<rparr>, w)"
  by (simp add: executeSellTrade_def)

lemma processCopyTrade_sell_no_holding:
  assumes "trade_type detected = ''sell''"
    and "getHolding (ledger w) (trade_tokenMint detected) = None"
  shows "\<exists>r. processCopyTrade env ts detected conf w = (Inr r, w) \<and> \<not> success r \<and> error r \<noteq> None"
proof (cases "isValid (validateTrade detected conf)")
  case False
  have "v_error (validateTrade detected conf) \<noteq> None"
    using False by (auto simp: validateTrade_def split: if_splits)
  then show ?thesis using False
    by (simp add: processCopyTrade_def processCopyTrade_try_def failedResult_def)
next
  case True
  show ?thesis
  proof (cases "loadBotWallet env (botWalletPrivateKey conf)")
    case (Inl e)
    then show ?thesis using True
      by (simp add: processCopyTrade_def processCopyTrade_try_def failedResult_def)
  next
    case (Inr botWallet)
    then show ?thesis using True assms
      by (simp add: processCopyTrade_def processCopyTrade_try_def
          executeSellTrade_no_holding [OF assms(2)])
  qed
qed

text \<open>
  C5. When the ledger has no entry for the mint of a detected sell,
  \<open>executeSellTrade\<close> returns a result with success false and an explanatory error and
  leaves the world as it was: no balance, quote, swap or send call is made and the
  ledger is untouched. The same holds for the whole of \<open>processCopyTrade\<close> on a sell.
\<close>

theorem executeSellTrade_skips_unknown:
  "getHolding (ledger w) (trade_tokenMint detected) = None \<longrightarrow>
     (\<exists>r. executeSellTrade env detected conf botWallet ts w = (Inr r, w) \<and>
          \<not> success r \<and>
          error r = Some (''No holding found for '' @ symbol (trade_tokenInfo detected) @
                         ''. Cannot sell token we don't own.'')) \<and>
     calls (snd (executeSellTrade env detected conf botWallet ts w)) = calls w \<and>
     (trade_type detected = ''sell'' \<longrightarrow>
        (\<exists>r. processCopyTrade env ts detected conf w = (Inr r, w) \<and> \<not> success r \<and>
             error r \<noteq> None))"
  using processCopyTrade_sell_no_holding [of detected w env ts conf]
  by (simp add: executeSellTrade_no_holding)

lemma sample_no_holding: "getHolding (ledger sampleWorld) (trade_tokenMint (sampleTrade ''sell'')) = None"
  by (simp add: getHolding_def sampleWorld_def sampleLedger_def sampleTrade_def)

theorem executeSellTrade_skips_unknown_witness:
  "getHolding (ledger sampleWorld) (trade_tokenMint (sampleTrade ''sell'')) = None \<and>
   trade_type (sampleTrade ''sell'') = ''sell'' \<and>
   calls (snd (executeSellTrade sampleChain (sampleTrade ''sell'') sampleConfig ''BotPubKey'' 7
                 sampleWorld)) = [] \<and>
   (\<exists>r. processCopyTrade sampleChain 7 (sampleTrade ''sell'') sampleConfig sampleWorld =
          (Inr r, sampleWorld) \<and> \<not> success r)"
proof -
  have t: "trade_type (sampleTrade ''sell'') = ''sell''" by (simp add: sampleTrade_def)
  have c: "calls sampleWorld = []" by (simp add: sampleWorld_def)
  from executeSellTrade_skips_unknown [where w = sampleWorld and detected = "sampleTrade ''sell''"
      and env = sampleChain and conf = sampleConfig and botWallet = "''BotPubKey''" and ts = 7]
    sample_no_holding t c
  show ?thesis by auto
qed

lemma validateTrade_no_break_space:
  "validateTrade (sampleTrade ''buy'') (sampleConfig\<lparr>botWalletPrivateKey := [CHR 0xA0]\<rparr>) =
     \<lparr>isValid = False, v_error = Some ''Bot wallet private key not configured''\<rparr>"
  by (simp add: validateTrade_def sampleTrade_def sampleConfig_def trim_def isWhiteSpace_def)



section \<open>Stopping the monitor\<close>

lemma unsubscribeFromWallet_eq:
  "unsubscribeFromWallet env h st = (Inr (), st\<lparr>removed := removed st @ [h]\<rparr>)"
  by (simp add: unsubscribeFromWallet_def unsubscribeFromWallet_try_def split: option.splits)

lemma unsubscribeAll_eq:
  "unsubscribeAll env xs st = (Inr (), st\<lparr>removed := removed st @ map snd xs\<rparr>)"
proof (induction xs arbitrary: st)
  case Nil
  then show ?case by simp
next
  case (Cons p xs)
  obtain a h where p: "p = (a, h)" by (cases p)
  show ?case using Cons.IH [of "st\<lparr>removed := removed st @ [h]\<rparr>"] p
    by (simp add: unsubscribeFromWallet_eq)
qed

lemma stopMonitoring_eq:
  "stopMonitoring env now st =
     (Inr (),
      st\<lparr>removed := (if connection st \<noteq> None \<and> subscriptionIds st \<noteq> []
                      then removed st @ map snd (subscriptionIds st) else removed st),
         subscriptionIds := [], monitoredWallets := [], connection := None,
         transactionAnalyzer := None, copyTradingEngine := None, config := None,
         isRunning := False\<rparr>)"
  by (simp add: stopMonitoring_def stopMonitoring_try_def unsubscribeAll_eq)

text \<open>
  C8. \<open>stopMonitoring\<close> returns normally from every state and whatever the
  unsubscribe calls do; afterwards the monitor is not running, has no wallets, no
  subscriptions and no connection, and no error has been reported. A second call, in
  any environment, returns normally and changes nothing.
\<close>

theorem stopMonitoring_idempotent:
  "fst (stopMonitoring env now st) = Inr () \<and>
   isRunning (snd (stopMonitoring env now st)) = False \<and>
   monitoredWallets (snd (stopMonitoring env now st)) = [] \<and>
   subscriptionIds (snd (stopMonitoring env now st)) = [] \<and>
   connection (snd (stopMonitoring env now st)) = None \<and>
   reported (snd (stopMonitoring env now st)) = reported st \<and>
   getStatus (snd (stopMonitoring env now st)) =
     \<lparr>status_isRunning = False, status_monitoredWallets = [],
      status_connectionStatus = ''disconnected'', status_subscriptionIds = []\<rparr> \<and>
   stopMonitoring env' now' (snd (stopMonitoring env now st)) =
     (Inr (), snd (stopMonitoring env now st))"
  by (simp add: stopMonitoring_eq getStatus_def)

section \<open>Starting the monitor\<close>

lemma subscribeToWallet_eq:
  "subscribeToWallet env now i a st =
     (if subscribes env i a
      then (Some (case onLogs env i a of Inr h \<Rightarrow> h | Inl e \<Rightarrow> 0), st)
      else (None, st\<lparr>reported := reported st @
              [\<lparr>err_type = SubscriptionError,
                err_message = ''Failed to subscribe to wallet: '' @
                  message (if \<not> validPublicKey env a
                           then Error (''Invalid wallet address: '' @ a)
                           else (case onLogs env i a of Inl e \<Rightarrow> e | Inr h \<Rightarrow> Error [])),
                err_walletAddress = Some a, err_timestamp = now\<rparr>]\<rparr>))"
  by (simp add: subscribeToWallet_def subscribes_def validateWalletAddress_def handleError_def
      split: sum.splits)

lemma subscribeAll_frame:
  "monitoredWallets (subscribeAll env now i ws st) = monitoredWallets st \<and>
   connection (subscribeAll env now i ws st) = connection st \<and>
   isRunning (subscribeAll env now i ws st) = isRunning st"
  by (induction ws arbitrary: i st) (simp_all add: subscribeToWallet_eq)

lemma shift_set:
  "{(a # ws) ! j |j. j < Suc (length ws) \<and> P (i + j) ((a # ws) ! j)} =
   (if P i a then {a} else {}) \<union> {ws ! j |j. j < length ws \<and> P (Suc i + j) (ws ! j)}"
proof -
  have "\<And>x. (\<exists>j. x = (a # ws) ! j \<and> j < Suc (length ws) \<and> P (i + j) ((a # ws) ! j)) \<longleftrightarrow>
        (x = a \<and> P i a) \<or> (\<exists>j. x = ws ! j \<and> j < length ws \<and> P (Suc i + j) (ws ! j))"
  proof
    fix x
    assume "\<exists>j. x = (a # ws) ! j \<and> j < Suc (length ws) \<and> P (i + j) ((a # ws) ! j)"
    then obtain j where j: "x = (a # ws) ! j" "j < Suc (length ws)" "P (i + j) ((a # ws) ! j)"
      by blast
    show "(x = a \<and> P i a) \<or> (\<exists>j. x = ws ! j \<and> j < length ws \<and> P (Suc i + j) (ws ! j))"
    proof (cases j)
      case 0
      then show ?thesis using j by simp
    next
      case (Suc k)
      then have "x = ws ! k \<and> k < length ws \<and> P (Suc i + k) (ws ! k)" using j by simp
      then show ?thesis by blast
    qed
  next
    fix x
    assume "(x = a \<and> P i a) \<or> (\<exists>j. x = ws ! j \<and> j < length ws \<and> P (Suc i + j) (ws ! j))"
    then show "\<exists>j. x = (a # ws) ! j \<and> j < Suc (length ws) \<and> P (i + j) ((a # ws) ! j)"
    proof
      assume "x = a \<and> P i a"
      then have "x = (a # ws) ! 0 \<and> 0 < Suc (length ws) \<and> P (i + 0) ((a # ws) ! 0)" by simp
      then show ?thesis by blast
    next
      assume "\<exists>j. x = ws ! j \<and> j < length ws \<and> P (Suc i + j) (ws ! j)"
      then obtain k where "x = ws ! k" "k < length ws" "P (Suc i + k) (ws ! k)" by blast
      then have "x = (a # ws) ! Suc k \<and> Suc k < Suc (length ws) \<and> P (i + Suc k) ((a # ws) ! Suc k)"
        by simp
      then show ?thesis by blast
    qed
  qed
  then show ?thesis by auto
qed

lemma subscribeAll_keys:
  "fst ` set (subscriptionIds (subscribeAll env now i ws st)) =
     fst ` set (subscriptionIds st) \<union> {ws ! j |j. j < length ws \<and> subscribes env (i + j) (ws ! j)}"
proof (induction ws arbitrary: i st)
  case Nil
  then show ?case by simp
next
  case (Cons a ws)
  show ?case
  proof (cases "subscribes env i a")
    case True
    then show ?thesis
      using Cons.IH [of "Suc i"] shift_set [of a ws "subscribes env" i]
      by (simp add: subscribeToWallet_eq AList.dom_update)
  next
    case False
    then show ?thesis
      using Cons.IH [of "Suc i"] shift_set [of a ws "subscribes env" i]
      by (simp add: subscribeToWallet_eq)
  qed
qed

lemma startMonitoring_try_unfold:
  assumes "parseWalletAddresses csv \<noteq> []" "newConnection env url = Inr c"
    "getVersion env c = None"
  shows "\<exists>base. startMonitoring_try env now url csv cfg st =
      (if subscriptionIds (subscribeAll env now 0 (parseWalletAddresses csv)
             (base\<lparr>monitoredWallets := parseWalletAddresses csv, subscriptionIds := []\<rparr>)) = []
       then (Inl (Error ''Failed to subscribe to any wallets''),
             subscribeAll env now 0 (parseWalletAddresses csv)
               (base\<lparr>monitoredWallets := parseWalletAddresses csv, subscriptionIds := []\<rparr>))
       else (Inr (),
             (subscribeAll env now 0 (parseWalletAddresses csv)
               (base\<lparr>monitoredWallets := parseWalletAddresses csv, subscriptionIds := []\<rparr>))
             \<lparr>isRunning := True\<rparr>))"
proof -
  define st0 where "st0 = (if isRunning st then snd (stopMonitoring env now st) else st)"
  have pre: "(if isRunning st then stopMonitoring env now st else (Inr (), st)) = (Inr (), st0)"
    by (simp add: st0_def stopMonitoring_eq)
  define base where "base = (case cfg of
                 None \<Rightarrow> st0\<lparr>connection := Some c, transactionAnalyzer := Some \<lparr>tokenCache = []\<rparr>\<rparr>
               | Some cf \<Rightarrow> st0\<lparr>connection := Some c,
                     transactionAnalyzer := Some \<lparr>tokenCache = []\<rparr>,
                     config := Some cf, copyTradingEngine := Some c\<rparr>)"
  have "startMonitoring_try env now url csv cfg st =
      (if subscriptionIds (subscribeAll env now 0 (parseWalletAddresses csv)
             (base\<lparr>monitoredWallets := parseWalletAddresses csv, subscriptionIds := []\<rparr>)) = []
       then (Inl (Error ''Failed to subscribe to any wallets''),
             subscribeAll env now 0 (parseWalletAddresses csv)
               (base\<lparr>monitoredWallets := parseWalletAddresses csv, subscriptionIds := []\<rparr>))
       else (Inr (),
             (subscribeAll env now 0 (parseWalletAddresses csv)
               (base\<lparr>monitoredWallets := parseWalletAddresses csv, subscriptionIds := []\<rparr>))
             \<lparr>isRunning := True\<rparr>))"
    unfolding startMonitoring_try_def pre base_def using assms by simp
  then show ?thesis by blast
qed

lemma startMonitoring_try_pre:
  assumes "fst (startMonitoring_try env now url csv cfg st) = Inr ()"
  shows "parseWalletAddresses csv \<noteq> [] \<and>
         (\<exists>c. newConnection env url = Inr c \<and> getVersion env c = None)"
proof -
  define st0 where "st0 = (if isRunning st then snd (stopMonitoring env now st) else st)"
  have pre: "(if isRunning st then stopMonitoring env now st else (Inr (), st)) = (Inr (), st0)"
    by (simp add: st0_def stopMonitoring_eq)
  have ne: "parseWalletAddresses csv \<noteq> []"
    using assms unfolding startMonitoring_try_def pre by (auto split: if_splits)
  obtain c where c: "newConnection env url = Inr c"
    using assms ne unfolding startMonitoring_try_def pre
    by (cases "newConnection env url") auto
  have v: "getVersion env c = None"
    using assms ne c unfolding startMonitoring_try_def pre
    by (cases "getVersion env c") auto
  show ?thesis using ne c v by blast
qed

lemma startMonitoring_try_Inr:
  assumes "startMonitoring_try env now url csv cfg st = (Inr (), s)"
  shows "\<exists>base c. parseWalletAddresses csv \<noteq> [] \<and> newConnection env url = Inr c \<and>
           getVersion env c = None \<and>
           s = (subscribeAll env now 0 (parseWalletAddresses csv)
                  (base\<lparr>monitoredWallets := parseWalletAddresses csv, subscriptionIds := []\<rparr>))
                 \<lparr>isRunning := True\<rparr> \<and>
           subscriptionIds s \<noteq> []"
proof -
  have "fst (startMonitoring_try env now url csv cfg st) = Inr ()" using assms by simp
  from startMonitoring_try_pre [OF this]
  obtain c where c: "parseWalletAddresses csv \<noteq> []" "newConnection env url = Inr c"
    "getVersion env c = None" by blast
  from startMonitoring_try_unfold [OF c, of now cfg st]
  obtain base where e: "startMonitoring_try env now url csv cfg st =
      (if subscriptionIds (subscribeAll env now 0 (parseWalletAddresses csv)
             (base\<lparr>monitoredWallets := parseWalletAddresses csv, subscriptionIds := []\<rparr>)) = []
       then (Inl (Error ''Failed to subscribe to any wallets''),
             subscribeAll env now 0 (parseWalletAddresses csv)
               (base\<lparr>monitoredWallets := parseWalletAddresses csv, subscriptionIds := []\<rparr>))
       else (Inr (),
             (subscribeAll env now 0 (parseWalletAddresses csv)
               (base\<lparr>monitoredWallets := parseWalletAddresses csv, subscriptionIds := []\<rparr>))
             \<lparr>isRunning := True\<rparr>))" by blast
  have "s = (subscribeAll env now 0 (parseWalletAddresses csv)
                  (base\<lparr>monitoredWallets := parseWalletAddresses csv, subscriptionIds := []\<rparr>))
                 \<lparr>isRunning := True\<rparr> \<and> subscriptionIds s \<noteq> []"
    using assms unfolding e by (auto split: if_splits)
  then show ?thesis using c by blast
qed

lemma startMonitoring_try_succeeds:
  assumes "parseWalletAddresses csv \<noteq> []" "newConnection env url = Inr c"
    "getVersion env c = None"
    "j < length (parseWalletAddresses csv)"
    "subscribes env j (parseWalletAddresses csv ! j)"
  shows "fst (startMonitoring_try env now url csv cfg st) = Inr ()"
proof -
  from startMonitoring_try_unfold [OF assms(1-3), of now cfg st]
  obtain base where e: "startMonitoring_try env now url csv cfg st =
      (if subscriptionIds (subscribeAll env now 0 (parseWalletAddresses csv)
             (base\<lparr>monitoredWallets := parseWalletAddresses csv, subscriptionIds := []\<rparr>)) = []
       then (Inl (Error ''Failed to subscribe to any wallets''),
             subscribeAll env now 0 (parseWalletAddresses csv)
               (base\<lparr>monitoredWallets := parseWalletAddresses csv, subscriptionIds := []\<rparr>))
       else (Inr (),
             (subscribeAll env now 0 (parseWalletAddresses csv)
               (base\<lparr>monitoredWallets := parseWalletAddresses csv, subscriptionIds := []\<rparr>))
             \<lparr>isRunning := True\<rparr>))" by blast
  have "parseWalletAddresses csv ! j \<in> fst ` set (subscriptionIds
          (subscribeAll env now 0 (parseWalletAddresses csv)
             (base\<lparr>monitoredWallets := parseWalletAddresses csv, subscriptionIds := []\<rparr>)))"
    unfolding subscribeAll_keys using assms(4,5) by auto
  then have "subscriptionIds (subscribeAll env now 0 (parseWalletAddresses csv)
             (base\<lparr>monitoredWallets := parseWalletAddresses csv, subscriptionIds := []\<rparr>)) \<noteq> []"
    by auto
  then show ?thesis unfolding e by simp
qed

lemma startMonitoring_fst:
  "fst (startMonitoring env now url csv cfg st) = fst (startMonitoring_try env now url csv cfg st)"
  by (cases "startMonitoring_try env now url csv cfg st";
      cases "fst (startMonitoring_try env now url csv cfg st)")
     (simp_all add: startMonitoring_def)

lemma startMonitoring_Inr:
  "fst (startMonitoring env now url csv cfg st) = Inr () \<Longrightarrow>
   startMonitoring_try env now url csv cfg st = (Inr (), snd (startMonitoring env now url csv cfg st))"
  by (cases "startMonitoring_try env now url csv cfg st";
      cases "fst (startMonitoring_try env now url csv cfg st)")
     (simp_all add: startMonitoring_def)

lemma startMonitoring_after:
  assumes ok: "fst (startMonitoring env now url csv cfg st) = Inr ()"
  shows "parseWalletAddresses csv \<noteq> [] \<and>
      (\<exists>c. newConnection env url = Inr c \<and> getVersion env c = None) \<and>
      (\<exists>j. j < length (parseWalletAddresses csv) \<and>
           subscribes env j (parseWalletAddresses csv ! j)) \<and>
      status_isRunning (getStatus (snd (startMonitoring env now url csv cfg st))) \<and>
      status_monitoredWallets (getStatus (snd (startMonitoring env now url csv cfg st))) =
        parseWalletAddresses csv \<and>
      fst ` set (subscriptionIds (snd (startMonitoring env now url csv cfg st))) =
        {parseWalletAddresses csv ! j |j.
           j < length (parseWalletAddresses csv) \<and>
           subscribes env j (parseWalletAddresses csv ! j)}"
proof -
  let ?ws = "parseWalletAddresses csv"
  let ?s = "snd (startMonitoring env now url csv cfg st)"
  from startMonitoring_try_Inr [OF startMonitoring_Inr [OF ok]]
  obtain base c where b: "?ws \<noteq> []" "newConnection env url = Inr c" "getVersion env c = None"
    "?s = (subscribeAll env now 0 ?ws (base\<lparr>monitoredWallets := ?ws, subscriptionIds := []\<rparr>))
            \<lparr>isRunning := True\<rparr>"
    "subscriptionIds ?s \<noteq> []"
    by blast
  have k: "fst ` set (subscriptionIds ?s) =
      {?ws ! j |j. j < length ?ws \<and> subscribes env j (?ws ! j)}"
    using subscribeAll_keys [of env now 0 ?ws "base\<lparr>monitoredWallets := ?ws, subscriptionIds := []\<rparr>"]
    by (simp add: b(4))
  have "fst ` set (subscriptionIds ?s) \<noteq> {}" using b(5) by simp
  then have ex: "\<exists>j. j < length ?ws \<and> subscribes env j (?ws ! j)" unfolding k by blast
  have r: "status_isRunning (getStatus ?s)" by (simp add: getStatus_def b(4))
  have m: "status_monitoredWallets (getStatus ?s) = ?ws"
    using subscribeAll_frame [of env now 0 ?ws "base\<lparr>monitoredWallets := ?ws, subscriptionIds := []\<rparr>"]
    by (simp add: getStatus_def b(4))
  show ?thesis using b(1-3) ex r m k by blast
qed

lemma startMonitoring_before:
  assumes "parseWalletAddresses csv \<noteq> []" "newConnection env url = Inr c"
    "getVersion env c = None" "j < length (parseWalletAddresses csv)"
    "subscribes env j (parseWalletAddresses csv ! j)"
  shows "fst (startMonitoring env now url csv cfg st) = Inr ()"
  using startMonitoring_try_succeeds [OF assms] by (simp add: startMonitoring_fst)

text \<open>
  C1, as the code has it. A call of \<open>startMonitoring\<close> succeeds exactly when the list
  has a non-empty entry, the connection is made and answers, and at least one
  subscription attempt succeeds; entries that are no public key, or whose subscription
  fails, do not fail the call. After a successful call the monitor is running, the keys
  of the subscription map are exactly the addresses whose subscription succeeded, and
  the wallets reported by \<open>getStatus\<close> are all the trimmed non-empty entries of the
  list, whether or not they were subscribed.
\<close>

theorem startMonitoring_wallets:
  "(fst (startMonitoring env now url csv cfg st) = Inr () \<longleftrightarrow>
      parseWalletAddresses csv \<noteq> [] \<and>
      (\<exists>c. newConnection env url = Inr c \<and> getVersion env c = None) \<and>
      (\<exists>j. j < length (parseWalletAddresses csv) \<and>
           subscribes env j (parseWalletAddresses csv ! j))) \<and>
   (fst (startMonitoring env now url csv cfg st) = Inr () \<longrightarrow>
      status_isRunning (getStatus (snd (startMonitoring env now url csv cfg st))) \<and>
      status_monitoredWallets (getStatus (snd (startMonitoring env now url csv cfg st))) =
        parseWalletAddresses csv \<and>
      fst ` set (subscriptionIds (snd (startMonitoring env now url csv cfg st))) =
        {parseWalletAddresses csv ! j |j.
           j < length (parseWalletAddresses csv) \<and>
           subscribes env j (parseWalletAddresses csv ! j)})"
  using startMonitoring_after [of env now url csv cfg st]
    startMonitoring_before [of csv env url _ _ now cfg st]
  by blast

lemma trim_plain:
  "trim ''whirLbMiicVdio4qvUfM5KAg6Ct8VwpYzGff3uctyCc'' = ''whirLbMiicVdio4qvUfM5KAg6Ct8VwpYzGff3uctyCc''"
  "trim '' not-an-address'' = ''not-an-address''"
  "trim ''whirLbMiicVdio4qvUfM5KAg6Ct8VwpYzGff3uctyCc, not-an-address'' \<noteq> []"
  by (simp_all add: trim_def isWhiteSpace_def)

lemma parse_no_break_space:
  "parseWalletAddresses (''A,'' @ CHR 0xA0 # ''B'') = [''A'', ''B'']"
  by (simp add: parseWalletAddresses_def trim_def isWhiteSpace_def)

lemma parse_sample:
  "parseWalletAddresses (sampleWallet @ '', not-an-address'') = [sampleWallet, ''not-an-address'']"
  by (simp add: parseWalletAddresses_def sampleWallet_def trim_plain)

lemma sample_subscribes:
  "subscribes sampleRpc 0 sampleWallet" "\<not> subscribes sampleRpc 1 ''not-an-address''"
  by (simp_all add: subscribes_def sampleRpc_def sampleWallet_def)

lemma sample_set:
  "{[sampleWallet, ''not-an-address''] ! j |j.
      j < length [sampleWallet, ''not-an-address''] \<and>
      subscribes sampleRpc j ([sampleWallet, ''not-an-address''] ! j)} = {sampleWallet}"
proof (rule set_eqI, rule iffI)
  fix x
  assume "x \<in> {[sampleWallet, ''not-an-address''] ! j |j.
      j < length [sampleWallet, ''not-an-address''] \<and>
      subscribes sampleRpc j ([sampleWallet, ''not-an-address''] ! j)}"
  then obtain j where j: "x = [sampleWallet, ''not-an-address''] ! j" "j < 2"
    "subscribes sampleRpc j ([sampleWallet, ''not-an-address''] ! j)" by auto
  from j(2) have "j = 0 \<or> j = Suc 0" by (rule less_2_cases)
  then show "x \<in> {sampleWallet}"
  proof
    assume "j = 0"
    then show ?thesis using j(1) by simp
  next
    assume "j = Suc 0"
    then show ?thesis using j(3) sample_subscribes(2) by simp
  qed
next
  fix x
  assume "x \<in> {sampleWallet}"
  then have "x = [sampleWallet, ''not-an-address''] ! 0 \<and>
     0 < length [sampleWallet, ''not-an-address''] \<and>
     subscribes sampleRpc 0 ([sampleWallet, ''not-an-address''] ! 0)"
    using sample_subscribes(1) by simp
  then show "x \<in> {[sampleWallet, ''not-an-address''] ! j |j.
      j < length [sampleWallet, ''not-an-address''] \<and>
      subscribes sampleRpc j ([sampleWallet, ''not-an-address''] ! j)}" by blast
qed

lemma sample_start:
  "fst (startMonitoring sampleRpc 0 ''https://rpc'' (sampleWallet @ '', not-an-address'') None
          newMonitor) = Inr ()"
proof (rule startMonitoring_before [where j = 0 and c = "''https://rpc''"])
  show "parseWalletAddresses (sampleWallet @ '', not-an-address'') \<noteq> []"
    by (simp add: parse_sample)
  show "newConnection sampleRpc ''https://rpc'' = Inr ''https://rpc''" by (simp add: sampleRpc_def)
  show "getVersion sampleRpc ''https://rpc'' = None" by (simp add: sampleRpc_def)
  show "0 < length (parseWalletAddresses (sampleWallet @ '', not-an-address''))"
    by (simp add: parse_sample)
  show "subscribes sampleRpc 0 (parseWalletAddresses (sampleWallet @ '', not-an-address'') ! 0)"
    using sample_subscribes(1) by (simp add: parse_sample)
qed

theorem startMonitoring_wallets_witness:
  "parseWalletAddresses (sampleWallet @ '', not-an-address'') \<noteq> [] \<and>
   newConnection sampleRpc ''https://rpc'' = Inr ''https://rpc'' \<and>
   getVersion sampleRpc ''https://rpc'' = None \<and>
   subscribes sampleRpc 0 (parseWalletAddresses (sampleWallet @ '', not-an-address'') ! 0) \<and>
   fst (startMonitoring sampleRpc 0 ''https://rpc'' (sampleWallet @ '', not-an-address'') None
          newMonitor) = Inr () \<and>
   fst ` set (subscriptionIds (snd (startMonitoring sampleRpc 0 ''https://rpc''
          (sampleWallet @ '', not-an-address'') None newMonitor))) = {sampleWallet}"
proof -
  have h: "parseWalletAddresses (sampleWallet @ '', not-an-address'') \<noteq> []"
    "newConnection sampleRpc ''https://rpc'' = Inr ''https://rpc''"
    "getVersion sampleRpc ''https://rpc'' = None"
    "subscribes sampleRpc 0 (parseWalletAddresses (sampleWallet @ '', not-an-address'') ! 0)"
    "0 < length (parseWalletAddresses (sampleWallet @ '', not-an-address''))"
    using sample_subscribes by (simp_all add: parse_sample sampleRpc_def)
  note t = startMonitoring_wallets [where env = sampleRpc and now = 0 and url = "''https://rpc''"
      and csv = "sampleWallet @ '', not-an-address''" and cfg = None and st = newMonitor]
  have ok: "fst (startMonitoring sampleRpc 0 ''https://rpc'' (sampleWallet @ '', not-an-address'')
              None newMonitor) = Inr ()"
    using t h by blast
  have "fst ` set (subscriptionIds (snd (startMonitoring sampleRpc 0 ''https://rpc''
          (sampleWallet @ '', not-an-address'') None newMonitor))) = {sampleWallet}"
    using t ok sample_set by (simp add: parse_sample)
  then show ?thesis using h ok by blast
qed

text \<open>
  With one address that is a public key and one entry that is not, the call succeeds,
  the subscription map holds the first alone, and \<open>getStatus\<close> reports both.
\<close>

theorem startMonitoring_wallets_counterexample:
  "fst (startMonitoring sampleRpc 0 ''https://rpc'' (sampleWallet @ '', not-an-address'') None
          newMonitor) = Inr () \<and>
   fst ` set (subscriptionIds (snd (startMonitoring sampleRpc 0 ''https://rpc''
          (sampleWallet @ '', not-an-address'') None newMonitor))) = {sampleWallet} \<and>
   status_monitoredWallets (getStatus (snd (startMonitoring sampleRpc 0 ''https://rpc''
          (sampleWallet @ '', not-an-address'') None newMonitor))) =
     [sampleWallet, ''not-an-address''] \<and>
   set (status_monitoredWallets (getStatus (snd (startMonitoring sampleRpc 0 ''https://rpc''
          (sampleWallet @ '', not-an-address'') None newMonitor)))) \<noteq>
   fst ` set (subscriptionIds (snd (startMonitoring sampleRpc 0 ''https://rpc''
          (sampleWallet @ '', not-an-address'') None newMonitor)))"
proof -
  let ?r = "startMonitoring sampleRpc 0 ''https://rpc'' (sampleWallet @ '', not-an-address'') None
          newMonitor"
  note a = startMonitoring_after [OF sample_start]
  have k: "fst ` set (subscriptionIds (snd ?r)) = {sampleWallet}"
    using a sample_set by (simp add: parse_sample)
  have m: "status_monitoredWallets (getStatus (snd ?r)) = [sampleWallet, ''not-an-address'']"
    using a by (simp add: parse_sample)
  have d: "set [sampleWallet, ''not-an-address''] \<noteq> {sampleWallet}"
    by (simp add: sampleWallet_def)
  show ?thesis using sample_start k m d by simp
qed

section \<open>The amounts of a buy\<close>

lemma getJupiterQuote_calls:
  "calls (snd (getJupiterQuote env i out a s w)) = calls w @ [QuoteCall i out a s]"
  by (simp add: getJupiterQuote_def)

lemma getJupiterSwap_calls:
  "calls (snd (getJupiterSwap env u q w)) = calls w @ [SwapCall u q]"
  by (simp add: getJupiterSwap_def)

lemma executeTransaction_calls:
  "calls (snd (executeTransaction env t s w)) = calls w @ [SendCall t s]"
  by (simp add: executeTransaction_def)

lemma recordBuy_calls: "calls (recordBuy env m a sp sg wl sy dc w) = calls w"
  by (simp add: recordBuy_def)

lemma executeBuyTrade_first_call:
  "\<exists>rest. calls (snd (executeBuyTrade env detected conf botWallet ts w)) =
     calls w @ QuoteCall WSOL_MINT (trade_tokenMint detected)
                 (of_int (amountInLamportsOf conf)) (of_int (slippageBpsOf conf)) # rest"
proof -
  let ?q = "getJupiterQuote env WSOL_MINT (trade_tokenMint detected)
             (of_int (amountInLamportsOf conf)) (of_int (slippageBpsOf conf)) w"
  obtain qr w1 where q: "?q = (qr, w1)" by (cases ?q)
  have c1: "calls w1 = calls w @ [QuoteCall WSOL_MINT (trade_tokenMint detected)
             (of_int (amountInLamportsOf conf)) (of_int (slippageBpsOf conf))]"
    using getJupiterQuote_calls [of env WSOL_MINT "trade_tokenMint detected"
        "of_int (amountInLamportsOf conf)" "of_int (slippageBpsOf conf)" w] q by simp
  show ?thesis
  proof (cases qr)
    case None
    then show ?thesis using q c1 by (simp add: executeBuyTrade_def)
  next
    case (Some quote)
    obtain sr w2 where s: "getJupiterSwap env botWallet quote w1 = (sr, w2)"
      by (cases "getJupiterSwap env botWallet quote w1")
    have c2: "calls w2 = calls w1 @ [SwapCall botWallet quote]"
      using getJupiterSwap_calls [of env botWallet quote w1] s by simp
    show ?thesis
    proof (cases sr)
      case None
      then show ?thesis using q Some s c1 c2 by (simp add: executeBuyTrade_def)
    next
      case sw: (Some swapResponse)
      obtain tr w3 where t: "executeTransaction env (swapTransaction swapResponse) botWallet w2 = (tr, w3)"
        by (cases "executeTransaction env (swapTransaction swapResponse) botWallet w2")
      have c3: "calls w3 = calls w2 @ [SendCall (swapTransaction swapResponse) botWallet]"
        using executeTransaction_calls [of env "swapTransaction swapResponse" botWallet w2] t by simp
      show ?thesis
        using q Some s sw t c1 c2 c3
        by (cases tr) (simp_all add: executeBuyTrade_def recordBuy_calls)
    qed
  qed
qed

lemma floor_fl_near: "\<bar>x\<bar> < 2 ^ 53 \<Longrightarrow> \<bar>\<lfloor>fl x\<rfloor> - \<lfloor>x\<rfloor>\<bar> \<le> 1"
  by (rule floor_near [OF fl_near])

lemma floor_fl_int: "x = of_int n \<Longrightarrow> \<bar>of_int n :: rat\<bar> < 2 ^ 53 \<Longrightarrow> \<lfloor>fl x\<rfloor> = n"
  by (simp add: fl_int)

lemma slippageBpsOf_upd: "slippageBpsOf (c\<lparr>slippagePercentage := s\<rparr>) = \<lfloor>fl (s * 100)\<rfloor>"
  by (simp add: slippageBpsOf_def fmul_def)

lemma amountInLamportsOf_upd:
  "amountInLamportsOf (c\<lparr>copyTradeAmountSol := a\<rparr>) = \<lfloor>fl (a * 1000000000)\<rfloor>"
  by (simp add: amountInLamportsOf_def fmul_def LAMPORTS_PER_SOL_def)

text \<open>
  C6, as the code has it. The spend in lamports is the floor of the binary64 product
  of the configured amount and 10^9, and the slippage in basis points the floor of the
  binary64 product of the percentage and 100; these are the numbers of the first quote
  request. While the exact product is below 2^53 in magnitude the result is within 1 of
  the floor of the exact product, and it is that product when the exact product is an
  integer.
\<close>

theorem executeBuy_amounts_binary64:
  "amountInLamportsOf conf = \<lfloor>fl (copyTradeAmountSol conf * 1000000000)\<rfloor> \<and>
   slippageBpsOf conf = \<lfloor>fl (slippagePercentage conf * 100)\<rfloor> \<and>
   (\<exists>rest. calls (snd (executeBuyTrade env detected conf botWallet ts w)) =
      calls w @ QuoteCall WSOL_MINT (trade_tokenMint detected)
                  (of_int (amountInLamportsOf conf)) (of_int (slippageBpsOf conf)) # rest) \<and>
   (\<bar>copyTradeAmountSol conf * 1000000000\<bar> < 2 ^ 53 \<longrightarrow>
      \<bar>amountInLamportsOf conf - \<lfloor>copyTradeAmountSol conf * 1000000000\<rfloor>\<bar> \<le> 1) \<and>
   (\<bar>slippagePercentage conf * 100\<bar> < 2 ^ 53 \<longrightarrow>
      \<bar>slippageBpsOf conf - \<lfloor>slippagePercentage conf * 100\<rfloor>\<bar> \<le> 1) \<and>
   (copyTradeAmountSol conf * 1000000000 = of_int n \<and> \<bar>of_int n :: rat\<bar> < 2 ^ 53 \<longrightarrow>
      amountInLamportsOf conf = n) \<and>
   (slippagePercentage conf * 100 = of_int k \<and> \<bar>of_int k :: rat\<bar> < 2 ^ 53 \<longrightarrow>
      slippageBpsOf conf = k)"
  using executeBuyTrade_first_call [of env detected conf botWallet ts w]
    floor_fl_near [of "copyTradeAmountSol conf * 1000000000"]
    floor_fl_near [of "slippagePercentage conf * 100"]
    floor_fl_int [of "copyTradeAmountSol conf * 1000000000" n]
    floor_fl_int [of "slippagePercentage conf * 100" k]
  by (simp add: amountInLamportsOf_def slippageBpsOf_def fmul_def LAMPORTS_PER_SOL_def)

theorem executeBuy_amounts_binary64_witness:
  "copyTradeAmountSol sampleConfig * 1000000000 = of_int 500000000 \<and>
   \<bar>of_int 500000000 :: rat\<bar> < 2 ^ 53 \<and>
   slippagePercentage sampleConfig * 100 = of_int 3000 \<and>
   \<bar>of_int 3000 :: rat\<bar> < 2 ^ 53 \<and>
   amountInLamportsOf sampleConfig = 500000000 \<and> slippageBpsOf sampleConfig = 3000"
proof -
  have h: "copyTradeAmountSol sampleConfig * 1000000000 = of_int 500000000"
    "\<bar>of_int 500000000 :: rat\<bar> < 2 ^ 53"
    "slippagePercentage sampleConfig * 100 = of_int 3000"
    "\<bar>of_int 3000 :: rat\<bar> < 2 ^ 53"
    by (simp_all add: sampleConfig_def)
  from executeBuy_amounts_binary64 [where conf = sampleConfig and n = 500000000 and k = 3000] h
  have "amountInLamportsOf sampleConfig = 500000000 \<and> slippageBpsOf sampleConfig = 3000"
    by blast
  with h show ?thesis by blast
qed

text \<open>
  The exact floor and the computed value differ. At the binary64 value nearest to 0.3
  the slippage is 30 basis points where the exact product has floor 29; at the value
  nearest to 0.009 the spend is 9000000 lamports where the exact product has floor
  8999999; and a percentage entered as 1.15 is held as the nearest binary64 value and
  gives 114 basis points where 1.15 times 100 is 115.
\<close>

theorem executeBuy_exact_counterexample:
  "slippageBpsOf (sampleConfig\<lparr>slippagePercentage := 5404319552844595 / 18014398509481984\<rparr>) = 30 \<and>
   \<lfloor>5404319552844595 / 18014398509481984 * 100 :: rat\<rfloor> = 29 \<and>
   amountInLamportsOf (sampleConfig\<lparr>copyTradeAmountSol := 5188146770730811 / 576460752303423488\<rparr>)
     = 9000000 \<and>
   \<lfloor>5188146770730811 / 576460752303423488 * 1000000000 :: rat\<rfloor> = 8999999 \<and>
   fl (115 / 100) = 2589569785738035 / 2251799813685248 \<and>
   slippageBpsOf (sampleConfig\<lparr>slippagePercentage := 2589569785738035 / 2251799813685248\<rparr>) = 114 \<and>
   \<lfloor>115 / 100 * 100 :: rat\<rfloor> = 115"
proof -
  have 1: "slippageBpsOf (sampleConfig\<lparr>slippagePercentage := 5404319552844595 / 18014398509481984\<rparr>) = 30"
    unfolding slippageBpsOf_upd fl_03_100 by simp
  have 2: "amountInLamportsOf (sampleConfig\<lparr>copyTradeAmountSol := 5188146770730811 / 576460752303423488\<rparr>)
     = 9000000"
    unfolding amountInLamportsOf_upd fl_0009_1e9 by simp
  have 3: "slippageBpsOf (sampleConfig\<lparr>slippagePercentage := 2589569785738035 / 2251799813685248\<rparr>) = 114"
    unfolding slippageBpsOf_upd fl_115_100 by (rule floors(3))
  show ?thesis
    by (intro conjI 1 2 3 floors(1) floors(2) floors(4) fl_115)
qed

end
